theory Spec2Isabelle
  imports Complex_Main "HOL-Library.List_Lexorder" "HOL-Library.Char_ord"
begin

section \<open>Labelled image preparation: \<^verbatim>\<open>utils/labelled_image_preparation.py\<close>\<close>

text \<open>
  The module has one function, \<^verbatim>\<open>data_to_labelled_img\<close>. It labels a series with an
  external trading strategy, one-hot encodes the labels, cuts labels and prices to the
  index range for which an image exists, calls up to four external image transforms and
  stacks their outputs. The embedding below follows the function line by line. The
  labeller, the four transforms and the floating-point arithmetic on the values of the
  series are collaborators that the module imports; they are parameters of the model
  (record \<open>env\<close>). The two window sizes are Python integers, but lines 85 to 140 halve
  \<^verbatim>\<open>label_window_size\<close> in float64: the model covers the window sizes on which that
  arithmetic is exact (magnitude at most \<open>2 ^ 53\<close>) and marks the others.
\<close>

subsection \<open>Python values\<close>

text \<open>
  The exceptions the function can raise. \<open>KeyError\<close> carries the labels that were not
  found, \<open>NameError\<close> the name that is not defined. \<open>ExternalError\<close> is whatever a
  collaborator raises. \<open>Outside_model\<close> is not a Python exception: it marks a call that
  leaves the fragment of Python and NumPy modelled here (the text says which).
\<close>

datatype py_error =
    KeyError "string list"
  | NameError string
  | TypeError
  | ExternalError string
  | Outside_model string

text \<open>
  A NumPy array: its shape and its elements in row-major order. An array is well formed
  when it has as many elements as its shape says.
\<close>

record 'a ndarray =
  shape :: "nat list"
  flat :: "'a list"

definition wf_ndarray :: "'a ndarray \<Rightarrow> bool" where
  "wf_ndarray a = (length (flat a) = prod_list (shape a))"


text \<open>
  A two-dimensional array from its rows: \<open>ncols\<close> is kept apart, since an array with no
  rows still has a number of columns.
\<close>

definition array2 :: "nat \<Rightarrow> 'a list list \<Rightarrow> 'a ndarray" where
  "array2 ncols rows = \<lparr>shape = [length rows, ncols], flat = concat rows\<rparr>"

text \<open>
  A pandas data frame with columns of one type: the number of rows and the columns in
  their order, each with its name.
\<close>

record 'a dataframe =
  nrows :: nat
  columns :: "(string \<times> 'a list) list"

text \<open>
  \<^verbatim>\<open>image_trf_strat\<close> is documented as "string or list of strings"; the function tests
  its type, so both forms are kept.
\<close>

datatype strat = Str string | Lst "string list"

text \<open>The keyword parameters with their defaults.\<close>

record kwargs =
  num_bin :: int
  padding_RP :: int
  standardize_out_RP :: bool
  standardize_out_GASF :: bool
  standardize_out_GADF :: bool
  use_returns :: bool

definition default_kwargs :: kwargs where
  "default_kwargs = \<lparr>num_bin = 5, padding_RP = 0, standardize_out_RP = False,
     standardize_out_GASF = False, standardize_out_GADF = False, use_returns = False\<rparr>"

text \<open>
  The collaborators. \<open>local_min_max series L\<close> stands for the second component of what
  \<^verbatim>\<open>labels.trading_strategies.local_min_max\<close> returns, the frame \<^verbatim>\<open>labelled_pd\<close>, as
  its rows \<open>(Series, Strategy)\<close>; the function uses no other component. Each transform
  stands for \<^verbatim>\<open>np.array\<close> of the first component of what the transform returns. Any of
  them may raise. \<open>rel_change cur prev\<close> is the floating-point \<^verbatim>\<open>cur/prev - 1\<close>.
  \<open>'v\<close> is the type of the series' values, \<open>'p\<close> that of a pixel.
\<close>

record ('v, 'p) env =
  local_min_max :: "'v list \<Rightarrow> int \<Rightarrow> py_error + ('v \<times> string) list"
  GASF :: "'v list \<Rightarrow> int \<Rightarrow> bool \<Rightarrow> py_error + 'p ndarray"
  GADF :: "'v list \<Rightarrow> int \<Rightarrow> bool \<Rightarrow> py_error + 'p ndarray"
  RP :: "'v list \<Rightarrow> int \<Rightarrow> int \<Rightarrow> bool \<Rightarrow> py_error + 'p ndarray"
  MTF :: "'v list \<Rightarrow> int \<Rightarrow> int \<Rightarrow> py_error + 'p ndarray"
  rel_change :: "'v \<Rightarrow> 'v \<Rightarrow> 'v"

text \<open>
  The local variables \<^verbatim>\<open>images_GASF\<close>, \<^verbatim>\<open>images_GADF\<close>, \<^verbatim>\<open>images_RP\<close> and
  \<^verbatim>\<open>images_MTF\<close>: each is bound only if its transform ran.
\<close>

record 'p image_vars =
  images_GASF :: "'p ndarray option"
  images_GADF :: "'p ndarray option"
  images_RP :: "'p ndarray option"
  images_MTF :: "'p ndarray option"

text \<open>
  What the function hands back when it reaches its last line: \<^verbatim>\<open>labelled_pd\<close>,
  \<^verbatim>\<open>price_at_image\<close>, \<^verbatim>\<open>images\<close>, \<^verbatim>\<open>image_labels\<close> and \<^verbatim>\<open>label_names\<close>.
\<close>

record ('v, 'p) tuple5 =
  ret_labelled_pd :: "('v \<times> string) list"
  ret_price_at_image :: "'v ndarray"
  ret_images :: "'p ndarray"
  ret_image_labels :: "bool ndarray"
  ret_label_names :: "nat \<rightharpoonup> string"

text \<open>
  The ways a call ends: an exception, a message on standard output followed by
  \<^verbatim>\<open>return()\<close> (the empty tuple), or the five results.
\<close>

datatype ('v, 'p) outcome =
    Raises py_error
  | Prints_and_returns_empty string
  | is_Returns: Returns (results: "('v, 'p) tuple5")

subsection \<open>Python and NumPy operations the function uses\<close>

definition and_then :: "'e + 'a \<Rightarrow> ('a \<Rightarrow> 'e + 'b) \<Rightarrow> 'e + 'b" where
  "and_then m f = (case m of Inl e \<Rightarrow> Inl e | Inr a \<Rightarrow> f a)"

text \<open>
  A slice \<^verbatim>\<open>xs[start:stop]\<close>; \<open>None\<close> is an omitted bound. A negative bound counts from
  the end, and every bound is clamped to the sequence. Python has no negative zero on
  integers: the bound \<open>-0\<close> is \<open>0\<close>.
\<close>

definition slice_index :: "nat \<Rightarrow> int \<Rightarrow> nat" where
  "slice_index n i = (if i < 0 then nat (max (i + int n) 0) else min (nat i) n)"

definition py_slice :: "'a list \<Rightarrow> int option \<Rightarrow> int option \<Rightarrow> 'a list" where
  "py_slice xs start stop =
     (let n = length xs;
          s = (case start of None \<Rightarrow> 0 | Some i \<Rightarrow> slice_index n i);
          e = (case stop of None \<Rightarrow> n | Some j \<Rightarrow> slice_index n j)
      in take (e - s) (drop s xs))"

text \<open>
  \<^verbatim>\<open>np.ceil(L/2)\<close> and \<^verbatim>\<open>np.int(L/2)\<close> (truncation towards zero) on an integer \<open>L\<close>.
  Python computes \<^verbatim>\<open>L/2\<close> as a float64, which has a significand of 53 bits. An integer
  \<open>n\<close> with \<open>\<bar>n\<bar> \<le> 2 ^ 53\<close> is a float64 value, and so is its half; on these the quotient,
  \<^verbatim>\<open>np.ceil\<close>, \<^verbatim>\<open>np.int\<close> and the comparison of line 85 are exact, and \<open>ceil_half\<close> and
  \<open>np_int_half\<close> are their values. Beyond \<open>2 ^ 53\<close> the quotient is rounded (and how NumPy
  compares a larger integer with a float64 depends on its version): \<open>float64_exact\<close> tells
  the two ranges apart, and the function's model leaves the second one out.
\<close>

definition float64_exact :: "int \<Rightarrow> bool" where
  "float64_exact n = (\<bar>n\<bar> \<le> 2 ^ 53)"

definition ceil_half :: "int \<Rightarrow> int" where
  "ceil_half L = - ((- L) div 2)"

definition np_int_half :: "int \<Rightarrow> int" where
  "np_int_half L = (if 0 \<le> L then L div 2 else - ((- L) div 2))"

text \<open>
  \<^verbatim>\<open>x in image_trf_strat\<close>: a substring test on a string, membership on a list.
\<close>

fun is_substring :: "string \<Rightarrow> string \<Rightarrow> bool" where
  "is_substring p [] = (p = [])"
| "is_substring p (c # cs) = (take (length p) (c # cs) = p \<or> is_substring p cs)"

fun py_in :: "string \<Rightarrow> strat \<Rightarrow> bool" where
  "py_in x (Str s) = is_substring x s"
| "py_in x (Lst names) = (x \<in> set names)"

fun strat_len :: "strat \<Rightarrow> nat" where
  "strat_len (Str s) = length s"
| "strat_len (Lst names) = length names"

text \<open>
  \<^verbatim>\<open>pd.get_dummies(col)\<close>: one indicator column per distinct value, the columns in
  sorted order.
\<close>

definition get_dummies :: "string list \<Rightarrow> bool dataframe" where
  "get_dummies col =
     \<lparr>nrows = length col,
      columns = map (\<lambda>c. (c, map (\<lambda>s. s = c) col)) (sort (remdups col))\<rparr>"

text \<open>
  \<^verbatim>\<open>df[names]\<close> with a list of column names: the named columns in the order asked for;
  \<open>KeyError\<close> with the names that are not columns.
\<close>

definition df_getitem_list :: "'a dataframe \<Rightarrow> string list \<Rightarrow> py_error + 'a dataframe" where
  "df_getitem_list df names =
     (let missing = filter (\<lambda>n. map_of (columns df) n = None) names
      in if missing \<noteq> [] then Inl (KeyError missing)
         else Inr (df\<lparr>columns :=
                concat (map (\<lambda>n. case map_of (columns df) n of
                                    None \<Rightarrow> [] | Some col \<Rightarrow> [(n, col)]) names)\<rparr>))"

text \<open>The rows of \<^verbatim>\<open>np.array(df)\<close>.\<close>

definition df_rows :: "'a dataframe \<Rightarrow> 'a list list" where
  "df_rows df = map (\<lambda>i. map (\<lambda>(c, col). col ! i) (columns df)) [0..<nrows df]"

text \<open>
  \<^verbatim>\<open>np.int(np.argwhere(cols == name))\<close>: the positions of \<open>name\<close>, converted to an
  integer, which NumPy does for an array of exactly one element.
\<close>

definition argwhere_eq :: "string list \<Rightarrow> string \<Rightarrow> nat list" where
  "argwhere_eq cols name = filter (\<lambda>i. cols ! i = name) [0..<length cols]"

definition np_int_of :: "nat list \<Rightarrow> py_error + nat" where
  "np_int_of idx = (case idx of [i] \<Rightarrow> Inr i | _ \<Rightarrow> Inl TypeError)"

text \<open>
  \<^verbatim>\<open>eval("images_" + trf)\<close>. \<^verbatim>\<open>eval\<close> evaluates any expression; the model covers the
  text that is one variable name, possibly followed by blanks (which \<^verbatim>\<open>eval\<close> ignores).
  Of the names that start with \<^verbatim>\<open>images_\<close> only the four of \<open>image_vars\<close> can be bound,
  in the function, the module or the builtins.
\<close>

definition is_ident_char :: "char \<Rightarrow> bool" where
  "is_ident_char c =
     (c \<in> set ''abcdefghijklmnopqrstuvwxyzABCDEFGHIJKLMNOPQRSTUVWXYZ0123456789_'')"

definition rstrip_blanks :: "string \<Rightarrow> string" where
  "rstrip_blanks s = rev (dropWhile (\<lambda>c. c = CHR '' '') (rev s))"

definition lookup_var :: "'p image_vars \<Rightarrow> string \<Rightarrow> 'p ndarray option" where
  "lookup_var vars name =
     (if name = ''images_GASF'' then images_GASF vars
      else if name = ''images_GADF'' then images_GADF vars
      else if name = ''images_RP'' then images_RP vars
      else if name = ''images_MTF'' then images_MTF vars
      else None)"

definition eval_images :: "'p image_vars \<Rightarrow> string \<Rightarrow> py_error + 'p ndarray" where
  "eval_images vars trf =
     (let expr = ''images_'' @ trf; name = rstrip_blanks expr
      in if \<not> list_all is_ident_char name then Inl (Outside_model expr)
         else case lookup_var vars name of
                None \<Rightarrow> Inl (NameError name)
              | Some a \<Rightarrow> Inr a)"

text \<open>
  \<^verbatim>\<open>np.moveaxis(images, 0, -1)\<close> on a list of arrays. The list becomes one array with
  a new first axis, which then moves to the end: element \<open>j\<close> of array \<open>c\<close> lands at
  position \<open>j * k + c\<close> for \<open>k\<close> arrays. What NumPy makes of arrays of unequal shapes
  depends on its version and is not modelled.
\<close>

definition moveaxis_0_last :: "'p ndarray list \<Rightarrow> py_error + 'p ndarray" where
  "moveaxis_0_last arrs =
     (case arrs of
        [] \<Rightarrow> Inr \<lparr>shape = [0], flat = []\<rparr>
      | a # _ \<Rightarrow>
          if list_all (\<lambda>b. shape b = shape a) arrs
          then Inr \<lparr>shape = shape a @ [length arrs],
                     flat = concat (transpose (map flat arrs))\<rparr>
          else Inl (Outside_model ''np.moveaxis on arrays of unequal shapes''))"

subsection \<open>The stages of \<^verbatim>\<open>data_to_labelled_img\<close>\<close>

text \<open>
  Lines 99 to 112. The two branches of the source differ in the first bound of the
  slices only: \<^verbatim>\<open>image_window_size\<close> when returns are used, \<^verbatim>\<open>image_window_size-1\<close>
  otherwise; the second bound is \<^verbatim>\<open>-np.int(label_window_size/2)\<close> in both.
\<close>

definition slice_bounds :: "bool \<Rightarrow> int \<Rightarrow> int \<Rightarrow> int \<times> int" where
  "slice_bounds returns W L =
     (if returns then (W, - np_int_half L) else (W - 1, - np_int_half L))"

text \<open>
  \<^verbatim>\<open>image_labels = np.array(dummies)[start:stop, :]\<close> and
  \<^verbatim>\<open>price_at_image = np.array(labelled_pd.Series.values)[start:stop].reshape((-1,1))\<close>.
\<close>

definition align ::
  "bool \<Rightarrow> int \<Rightarrow> int \<Rightarrow> bool dataframe \<Rightarrow> ('v \<times> string) list \<Rightarrow> bool ndarray \<times> 'v ndarray"
where
  "align returns W L dummies labelled_pd =
     (case slice_bounds returns W L of (start, stop) \<Rightarrow>
        (array2 (length (columns dummies))
           (py_slice (df_rows dummies) (Some start) (Some stop)),
         array2 1
           (map (\<lambda>x. [x]) (py_slice (map fst labelled_pd) (Some start) (Some stop)))))"

text \<open>Lines 114 to 116: \<^verbatim>\<open>series[1:]/series[:-1] - 1\<close> when returns are used.\<close>

definition image_source :: "('v, 'p) env \<Rightarrow> bool \<Rightarrow> 'v list \<Rightarrow> 'v list" where
  "image_source env returns series =
     (if returns
      then map2 (rel_change env) (py_slice series (Some 1) None) (py_slice series None (Some (- 1)))
      else series)"

text \<open>
  Lines 119 to 141: each transform runs if its name is \<^verbatim>\<open>in image_trf_strat\<close>, on
  \<^verbatim>\<open>series[:-np.int(label_window_size/2)]\<close>, in the order GASF, GADF, RP, MTF.
\<close>

definition run_if :: "bool \<Rightarrow> py_error + 'a \<Rightarrow> py_error + 'a option" where
  "run_if b m = (if b then and_then m (\<lambda>a. Inr (Some a)) else Inr None)"

definition run_transforms ::
  "('v, 'p) env \<Rightarrow> kwargs \<Rightarrow> strat \<Rightarrow> 'v list \<Rightarrow> int \<Rightarrow> py_error + 'p image_vars"
where
  "run_transforms env kw image_trf_strat trimmed W =
     and_then (run_if (py_in ''GASF'' image_trf_strat)
                 (GASF env trimmed W (standardize_out_GASF kw))) (\<lambda>g.
     and_then (run_if (py_in ''GADF'' image_trf_strat)
                 (GADF env trimmed W (standardize_out_GADF kw))) (\<lambda>d.
     and_then (run_if (py_in ''RP'' image_trf_strat)
                 (RP env trimmed W (padding_RP kw) (standardize_out_RP kw))) (\<lambda>r.
     and_then (run_if (py_in ''MTF'' image_trf_strat)
                 (MTF env trimmed W (num_bin kw))) (\<lambda>m.
     Inr \<lparr>images_GASF = g, images_GADF = d, images_RP = r, images_MTF = m\<rparr>))))"

text \<open>Lines 149 to 152: the dictionary \<^verbatim>\<open>label_names\<close>; a later key replaces an equal earlier one.\<close>

definition make_label_names :: "string list \<Rightarrow> py_error + (nat \<rightharpoonup> string)" where
  "make_label_names label_colnames =
     and_then (np_int_of (argwhere_eq label_colnames ''Sell'')) (\<lambda>s.
     and_then (np_int_of (argwhere_eq label_colnames ''Buy'')) (\<lambda>b.
     and_then (np_int_of (argwhere_eq label_colnames ''Hold'')) (\<lambda>h.
     Inr (Map.empty(s \<mapsto> ''Sell'', b \<mapsto> ''Buy'', h \<mapsto> ''Hold'')))))"

text \<open>
  Lines 154 to 164. The loop over a list of more than one name evaluates
  \<^verbatim>\<open>eval("images_" + trf)\<close> name by name and stops at the first exception. The other
  branch computes \<^verbatim>\<open>"images_" + image_trf_strat\<close>, which is a \<open>TypeError\<close> when
  \<^verbatim>\<open>image_trf_strat\<close> is a list.
\<close>

fun collect_images :: "'p image_vars \<Rightarrow> string list \<Rightarrow> py_error + 'p ndarray list" where
  "collect_images vars [] = Inr []"
| "collect_images vars (trf # rest) =
     and_then (eval_images vars trf) (\<lambda>a.
     and_then (collect_images vars rest) (\<lambda>as. Inr (a # as)))"

definition stack_images :: "strat \<Rightarrow> 'p image_vars \<Rightarrow> py_error + 'p ndarray" where
  "stack_images image_trf_strat vars =
     (case image_trf_strat of
        Lst names \<Rightarrow>
          if length names > 1
          then and_then (collect_images vars names) moveaxis_0_last
          else Inl TypeError
      | Str s \<Rightarrow> eval_images vars s)"

text \<open>The messages of lines 86 and 144.\<close>

definition window_message :: string where
  "window_message =
     ''image_window_size must be >= np.ceil(label_window_size/2), please choose a grater image window size.''"

definition strat_message :: string where
  "strat_message = ''Please define the image_trf_strat: GASF, GADF, RP or MTF''"

text \<open>The local variables that are live at line 153, when the stacking starts.\<close>

record ('v, 'p) frame =
  labelled_pd :: "('v \<times> string) list"
  price_at_image :: "'v ndarray"
  image_labels :: "bool ndarray"
  label_names :: "nat \<rightharpoonup> string"
  image_vars :: "'p image_vars"

text \<open>
  Lines 85 to 152: \<open>Inl\<close> is a call that ends there, \<open>Inr\<close> the frame the stacking
  continues with. A window size beyond \<open>2 ^ 53\<close> in magnitude makes the test of line 85
  depend on float64 rounding, which is outside the model.
\<close>

definition prepare ::
  "('v, 'p) env \<Rightarrow> (string \<rightharpoonup> 'v list) \<Rightarrow> string \<Rightarrow> int \<Rightarrow> int \<Rightarrow> strat \<Rightarrow> kwargs
     \<Rightarrow> ('v, 'p) outcome + ('v, 'p) frame"
where
  "prepare env data column_name L W image_trf_strat kw =
     (if float64_exact L \<and> float64_exact W then
      if W < ceil_half L
      then Inl (Prints_and_returns_empty window_message)
      else
        case data column_name of
          None \<Rightarrow> Inl (Raises (KeyError [column_name]))
        | Some series \<Rightarrow>
        (case local_min_max env series L of
          Inl e \<Rightarrow> Inl (Raises e)
        | Inr lpd \<Rightarrow>
        (case df_getitem_list (get_dummies (map snd lpd)) [''Sell'', ''Buy'', ''Hold''] of
          Inl e \<Rightarrow> Inl (Raises e)
        | Inr dummies \<Rightarrow>
        (case align (use_returns kw) W L dummies lpd of (labels, price) \<Rightarrow>
        (case run_transforms env kw image_trf_strat
                (py_slice (image_source env (use_returns kw) series) None
                   (Some (- np_int_half L))) W of
          Inl e \<Rightarrow> Inl (Raises e)
        | Inr vars \<Rightarrow>
            if strat_len image_trf_strat = 0
            then Inl (Prints_and_returns_empty strat_message)
            else
              (case make_label_names (map fst (columns dummies)) of
                Inl e \<Rightarrow> Inl (Raises e)
              | Inr names \<Rightarrow>
                  Inr \<lparr>labelled_pd = lpd, price_at_image = price, image_labels = labels,
                       label_names = names, image_vars = vars\<rparr>)))))
      else Inl (Raises (Outside_model ''float64 rounding of a window size beyond 2**53'')))"

text \<open>The function: lines 85 to 166.\<close>

definition data_to_labelled_img ::
  "('v, 'p) env \<Rightarrow> (string \<rightharpoonup> 'v list) \<Rightarrow> string \<Rightarrow> int \<Rightarrow> int \<Rightarrow> strat \<Rightarrow> kwargs
     \<Rightarrow> ('v, 'p) outcome"
where
  "data_to_labelled_img env data column_name L W image_trf_strat kw =
     (case prepare env data column_name L W image_trf_strat kw of
        Inl out \<Rightarrow> out
      | Inr fr \<Rightarrow>
          (case stack_images image_trf_strat (image_vars fr) of
             Inl e \<Rightarrow> Raises e
           | Inr images \<Rightarrow>
               Returns \<lparr>ret_labelled_pd = labelled_pd fr,
                        ret_price_at_image = price_at_image fr,
                        ret_images = images,
                        ret_image_labels = image_labels fr,
                        ret_label_names = label_names fr\<rparr>))"

subsection \<open>Notions the properties are stated with\<close>

text \<open>The one-hot row of a label when the columns are in the order (Sell, Buy, Hold).\<close>

definition one_hot :: "string \<Rightarrow> bool list" where
  "one_hot s = [s = ''Sell'', s = ''Buy'', s = ''Hold'']"

text \<open>
  The frame \<^verbatim>\<open>dummies\<close> after line 95 for a label column in which each of the three
  categories occurs.
\<close>

definition selected_dummies :: "string list \<Rightarrow> bool dataframe" where
  "selected_dummies col =
     \<lparr>nrows = length col,
      columns = [(''Sell'', map (\<lambda>s. s = ''Sell'') col),
                 (''Buy'', map (\<lambda>s. s = ''Buy'') col),
                 (''Hold'', map (\<lambda>s. s = ''Hold'') col)]\<rparr>"

text \<open>
  The specification's slice "from index \<open>a\<close> (inclusive) to index \<open>b\<close> (exclusive)",
  for \<open>b\<close> within the sequence.
\<close>

definition spec_slice :: "'a list \<Rightarrow> nat \<Rightarrow> nat \<Rightarrow> 'a list" where
  "spec_slice xs a b = map (\<lambda>i. xs ! i) [a..<b]"

text \<open>Channel \<open>c\<close> of a tensor with the channels on its last axis: \<^verbatim>\<open>t[..., c]\<close>.\<close>

definition channel :: "'a ndarray \<Rightarrow> nat \<Rightarrow> 'a ndarray" where
  "channel t c =
     \<lparr>shape = butlast (shape t),
      flat = map (\<lambda>j. flat t ! (j * last (shape t) + c)) [0..<prod_list (butlast (shape t))]\<rparr>"


definition labeller_contract :: "('v, 'p) env \<Rightarrow> bool" where
  "labeller_contract env =
     (\<forall>xs l lpd. local_min_max env xs l = Inr lpd \<longrightarrow> length lpd = length xs)"

text \<open>
  The same assumptions for one call only. \<open>trimmed_series\<close> is the series that the call
  hands to the transforms (lines 114 to 140). \<open>image_count n W\<close> is the number of
  windows of size \<open>W\<close> in a series of \<open>n\<close> values: \<open>n - W + 1\<close>, and none when that is
  negative. \<open>returns_count r k\<close>: the result \<open>r\<close> of a collaborator, if it is an array, has
  \<open>k\<close> entries on its first axis. \<open>transforms_return_count\<close>: each transform that the
  selection asks for returns \<open>image_count\<close> images when called as the call does.
  \<open>one_row_per_value\<close>: the labeller, called as the call does, returns one row per value
  of the series.
\<close>

definition trimmed_series :: "('v, 'p) env \<Rightarrow> kwargs \<Rightarrow> 'v list \<Rightarrow> int \<Rightarrow> 'v list" where
  "trimmed_series env kw series L =
     py_slice (image_source env (use_returns kw) series) None (Some (- np_int_half L))"




definition one_row_per_value :: "('v, 'p) env \<Rightarrow> 'v list \<Rightarrow> int \<Rightarrow> bool" where
  "one_row_per_value env series L =
     (case local_min_max env series L of
        Inl e \<Rightarrow> True
      | Inr lpd \<Rightarrow> length lpd = length series)"

text \<open>
  The names a selection asks for, the four names the function knows, and the names that
  are made of identifier characters only (for these \<^verbatim>\<open>eval\<close> is a variable lookup).
\<close>

fun strat_names :: "strat \<Rightarrow> string list" where
  "strat_names (Str s) = [s]"
| "strat_names (Lst names) = names"

definition known_strategies :: "string list" where
  "known_strategies = [''GASF'', ''GADF'', ''RP'', ''MTF'']"

definition plain_name :: "string \<Rightarrow> bool" where
  "plain_name s = list_all is_ident_char s"

text \<open>A selection that is a list of exactly one name.\<close>

fun one_element_list :: "strat \<Rightarrow> bool" where
  "one_element_list (Lst [x]) = True"
| "one_element_list st = False"

text \<open>Every array that a transform returns is well formed.\<close>

definition wf_transforms :: "('v, 'p) env \<Rightarrow> bool" where
  "wf_transforms env =
     (\<forall>xs w a.
        ((\<exists>b. GASF env xs w b = Inr a) \<or> (\<exists>b. GADF env xs w b = Inr a) \<or>
         (\<exists>p b. RP env xs w p b = Inr a) \<or> (\<exists>nb. MTF env xs w nb = Inr a))
        \<longrightarrow> wf_ndarray a)"

subsection \<open>A concrete environment\<close>

text \<open>
  Collaborators to run the function on concrete input. The labeller hands out the given
  labels in order (and \<open>Hold\<close> once they are used up), one row per value. Each transform
  returns \<open>length - w + 1\<close> images of one pixel that holds the transform's number (1 for
  GASF, 2 for GADF, 3 for RP, 4 for MTF), and raises when the window is longer than the
  series by more than one.
\<close>

definition demo_labeller :: "string list \<Rightarrow> real list \<Rightarrow> int \<Rightarrow> py_error + (real \<times> string) list" where
  "demo_labeller labels series L =
     Inr (zip series (take (length series) (labels @ replicate (length series) ''Hold'')))"

definition demo_images :: "nat \<Rightarrow> nat \<Rightarrow> nat ndarray" where
  "demo_images tag n = \<lparr>shape = [n, 1, 1], flat = replicate n tag\<rparr>"

definition demo_transform :: "nat \<Rightarrow> real list \<Rightarrow> int \<Rightarrow> py_error + nat ndarray" where
  "demo_transform tag series W =
     (if int (length series) - W + 1 < 0 then Inl (ExternalError ''window longer than series'')
      else Inr (demo_images tag (nat (int (length series) - W + 1))))"

definition demo_env :: "string list \<Rightarrow> (real, nat) env" where
  "demo_env labels =
     \<lparr>local_min_max = demo_labeller labels,
      GASF = (\<lambda>xs w b. demo_transform 1 xs w),
      GADF = (\<lambda>xs w b. demo_transform 2 xs w),
      RP = (\<lambda>xs w p b. demo_transform 3 xs w),
      MTF = (\<lambda>xs w nb. demo_transform 4 xs w),
      rel_change = (\<lambda>cur prev. cur / prev - 1)\<rparr>"

text \<open>
  A second labeller, for an environment with the same transforms: it labels the values
  that have a neighbour on either side and returns no row for the first and the last
  value of the series.
\<close>

definition inner_labeller :: "string list \<Rightarrow> real list \<Rightarrow> int \<Rightarrow> py_error + (real \<times> string) list" where
  "inner_labeller labels series L = demo_labeller labels (butlast (tl series)) L"

definition inner_env :: "string list \<Rightarrow> (real, nat) env" where
  "inner_env labels = (demo_env labels)\<lparr>local_min_max := inner_labeller labels\<rparr>"

text \<open>The image variables after the transforms of the concrete environment have run.\<close>

definition demo_vars :: "strat \<Rightarrow> nat \<Rightarrow> nat image_vars" where
  "demo_vars st n =
     \<lparr>images_GASF = (if py_in ''GASF'' st then Some (demo_images 1 n) else None),
      images_GADF = (if py_in ''GADF'' st then Some (demo_images 2 n) else None),
      images_RP = (if py_in ''RP'' st then Some (demo_images 3 n) else None),
      images_MTF = (if py_in ''MTF'' st then Some (demo_images 4 n) else None)\<rparr>"

section \<open>Properties\<close>

subsection \<open>The one-hot encoding (lines 94 to 97)\<close>

lemma map_of_dummies:
  "map_of (columns (get_dummies col)) c =
     (if c \<in> set col then Some (map (\<lambda>s. s = c) col) else None)"
  by (simp add: get_dummies_def map_of_map_restrict restrict_map_def)

lemma dummies_with_columns:
  "(get_dummies col)\<lparr>columns := cs\<rparr> = \<lparr>nrows = length col, columns = cs\<rparr>"
  by (simp add: get_dummies_def)

lemma select_dummies_present:
  assumes "''Sell'' \<in> set col" "''Buy'' \<in> set col" "''Hold'' \<in> set col"
  shows "df_getitem_list (get_dummies col) [''Sell'', ''Buy'', ''Hold''] =
      Inr (selected_dummies col)"
  unfolding df_getitem_list_def Let_def selected_dummies_def using assms
  by (simp only: map_of_dummies dummies_with_columns) simp

lemma select_dummies_absent:
  assumes "\<not> (''Sell'' \<in> set col \<and> ''Buy'' \<in> set col \<and> ''Hold'' \<in> set col)"
  shows "df_getitem_list (get_dummies col) [''Sell'', ''Buy'', ''Hold''] =
      Inl (KeyError (filter (\<lambda>n. n \<notin> set col) [''Sell'', ''Buy'', ''Hold'']))"
proof -
  have m: "(\<lambda>n. map_of (columns (get_dummies col)) n = None) = (\<lambda>n. n \<notin> set col)"
    by (rule ext) (simp only: map_of_dummies split: if_splits, simp)
  have "filter (\<lambda>n. n \<notin> set col) [''Sell'', ''Buy'', ''Hold''] \<noteq> []"
    using assms by (simp only: filter.simps split: if_splits) blast
  then show ?thesis
    unfolding df_getitem_list_def Let_def m by (simp only: not_False_eq_True if_True)
qed

lemma rows_selected: "df_rows (selected_dummies col) = map one_hot col"
proof -
  have "map (\<lambda>i. one_hot (col ! i)) [0..<length col] = map one_hot col"
    by (simp only: map_nth flip: map_map [unfolded comp_def, of one_hot "\<lambda>i. col ! i"])
  moreover have "df_rows (selected_dummies col) = map (\<lambda>i. one_hot (col ! i)) [0..<length col]"
    unfolding df_rows_def selected_dummies_def one_hot_def
    by (simp del: upt_Suc)
  ultimately show ?thesis by simp
qed

lemma colnames_selected:
  "map fst (columns (selected_dummies col)) = [''Sell'', ''Buy'', ''Hold'']"
  by (simp add: selected_dummies_def)

lemma ncols_selected: "length (columns (selected_dummies col)) = 3"
  by (simp add: selected_dummies_def)

lemma argwhere_three:
  "argwhere_eq [''Sell'', ''Buy'', ''Hold''] ''Sell'' = [0]"
  "argwhere_eq [''Sell'', ''Buy'', ''Hold''] ''Buy'' = [1]"
  "argwhere_eq [''Sell'', ''Buy'', ''Hold''] ''Hold'' = [2]"
  by (simp_all add: argwhere_eq_def upt_rec numeral_2_eq_2)

lemma label_names_fixed:
  "make_label_names [''Sell'', ''Buy'', ''Hold''] =
     Inr [0 \<mapsto> ''Sell'', 1 \<mapsto> ''Buy'', 2 \<mapsto> ''Hold'']"
  unfolding make_label_names_def
  by (simp only: argwhere_three np_int_of_def and_then_def list.case sum.case)

subsection \<open>Slices\<close>

lemma length_py_slice:
  "length (py_slice xs (Some a) (Some b)) = slice_index (length xs) b - slice_index (length xs) a"
  by (simp add: py_slice_def Let_def slice_index_def)

lemma py_slice_map: "py_slice (map f xs) a b = map f (py_slice xs a b)"
  by (simp add: py_slice_def Let_def take_map drop_map)

lemma take_drop_nth: "e \<le> length xs \<Longrightarrow> take (e - s) (drop s xs) = map (\<lambda>i. xs ! i) [s..<e]"
  by (simp add: list_eq_iff_nth_eq)

lemma py_slice_spec:
  assumes "0 \<le> a" "0 < k"
  shows "py_slice xs (Some a) (Some (- k)) = spec_slice xs (nat a) (length xs - nat k)"
proof -
  have e: "slice_index (length xs) (- k) = length xs - nat k"
    using assms by (simp add: slice_index_def nat_diff_distrib' max_def)
  show ?thesis
  proof (cases "nat a \<le> length xs")
    case True
    then have "slice_index (length xs) a = nat a" using assms by (simp add: slice_index_def)
    have "take ((length xs - nat k) - nat a) (drop (nat a) xs) =
        map (\<lambda>i. xs ! i) [nat a..<length xs - nat k]"
      by (rule take_drop_nth) simp
    with \<open>slice_index (length xs) a = nat a\<close> show ?thesis
      unfolding py_slice_def Let_def spec_slice_def option.case e
      by (simp only:)
  next
    case False
    then show ?thesis
      unfolding py_slice_def Let_def spec_slice_def option.case e
      using assms by (simp add: slice_index_def)
  qed
qed

lemma py_slice_succ_start:
  assumes "0 \<le> a"
  shows "py_slice xs (Some (a + 1)) (Some b) = drop 1 (py_slice xs (Some a) (Some b))"
proof -
  let ?n = "length xs" let ?e = "slice_index ?n b"
  show ?thesis
  proof (cases "nat a < ?n")
    case True
    then have "slice_index ?n a = nat a" "slice_index ?n (a + 1) = Suc (nat a)"
      using assms by (simp_all add: slice_index_def nat_add_distrib)
    then show ?thesis
      unfolding py_slice_def Let_def option.case
      by (simp add: drop_take)
  next
    case False
    then have "slice_index ?n a = ?n" "slice_index ?n (a + 1) = ?n"
      using assms by (simp_all add: slice_index_def)
    then show ?thesis
      unfolding py_slice_def Let_def option.case by simp
  qed
qed

subsection \<open>The stages before the stacking (lines 85 to 152)\<close>

lemma prepare_Inr:
  assumes "prepare env data column_name L W st kw = Inr fr"
  obtains series where
    "\<not> W < ceil_half L"
    "data column_name = Some series"
    "local_min_max env series L = Inr (labelled_pd fr)"
    "''Sell'' \<in> set (map snd (labelled_pd fr))"
    "''Buy'' \<in> set (map snd (labelled_pd fr))"
    "''Hold'' \<in> set (map snd (labelled_pd fr))"
    "(image_labels fr, price_at_image fr) =
       align (use_returns kw) W L (selected_dummies (map snd (labelled_pd fr))) (labelled_pd fr)"
    "run_transforms env kw st
       (py_slice (image_source env (use_returns kw) series) None (Some (- np_int_half L))) W
       = Inr (image_vars fr)"
    "strat_len st \<noteq> 0"
    "label_names fr = [0 \<mapsto> ''Sell'', 1 \<mapsto> ''Buy'', 2 \<mapsto> ''Hold'']"
    "float64_exact L" "float64_exact W"
proof -
  from assms have x: "float64_exact L \<and> float64_exact W"
    unfolding prepare_def by (simp split: if_splits)
  from assms x have g: "\<not> W < ceil_half L"
    unfolding prepare_def by (simp split: if_splits)
  from assms x g obtain series where s: "data column_name = Some series"
    unfolding prepare_def by (simp split: option.splits)
  from assms x g s obtain lpd where l: "local_min_max env series L = Inr lpd"
    unfolding prepare_def by (simp split: sum.splits)
  let ?col = "map snd lpd"
  from assms x g s l obtain dummies where
    d: "df_getitem_list (get_dummies ?col) [''Sell'', ''Buy'', ''Hold''] = Inr dummies"
    unfolding prepare_def by (simp split: sum.splits)
  have pres: "''Sell'' \<in> set ?col \<and> ''Buy'' \<in> set ?col \<and> ''Hold'' \<in> set ?col"
  proof (rule ccontr)
    assume "\<not> ?thesis"
    from select_dummies_absent [OF this] d show False by simp
  qed
  with d have dd: "dummies = selected_dummies ?col"
    by (simp add: select_dummies_present)
  obtain labels price where a: "align (use_returns kw) W L dummies lpd = (labels, price)"
    by (cases "align (use_returns kw) W L dummies lpd")
  from assms x g s l d a obtain vars where
    r: "run_transforms env kw st
       (py_slice (image_source env (use_returns kw) series) None (Some (- np_int_half L))) W
       = Inr vars"
    unfolding prepare_def by (simp split: sum.splits)
  from assms x g s l d a r have n: "strat_len st \<noteq> 0"
    unfolding prepare_def by (simp split: if_splits)
  have nm: "make_label_names (map fst (columns dummies)) =
      Inr [0 \<mapsto> ''Sell'', 1 \<mapsto> ''Buy'', 2 \<mapsto> ''Hold'']"
    unfolding dd colnames_selected by (rule label_names_fixed)
  from assms x g s l d a r n nm have
    fr: "fr = \<lparr>labelled_pd = lpd, price_at_image = price, image_labels = labels,
             label_names = [0 \<mapsto> ''Sell'', 1 \<mapsto> ''Buy'', 2 \<mapsto> ''Hold''], image_vars = vars\<rparr>"
    unfolding prepare_def by simp
  show thesis
    by (rule that [of series]) (use x g s l pres a r n in \<open>simp_all add: fr dd\<close>)
qed

lemma prepare_Inr_intro:
  assumes "\<not> W < ceil_half L"
    "data column_name = Some series"
    "local_min_max env series L = Inr lpd"
    "''Sell'' \<in> set (map snd lpd)" "''Buy'' \<in> set (map snd lpd)" "''Hold'' \<in> set (map snd lpd)"
    "run_transforms env kw st
       (py_slice (image_source env (use_returns kw) series) None (Some (- np_int_half L))) W
       = Inr vars"
    "strat_len st \<noteq> 0"
    "float64_exact L" "float64_exact W"
  shows "prepare env data column_name L W st kw =
    Inr \<lparr>labelled_pd = lpd,
         price_at_image = snd (align (use_returns kw) W L (selected_dummies (map snd lpd)) lpd),
         image_labels = fst (align (use_returns kw) W L (selected_dummies (map snd lpd)) lpd),
         label_names = [0 \<mapsto> ''Sell'', 1 \<mapsto> ''Buy'', 2 \<mapsto> ''Hold''],
         image_vars = vars\<rparr>"
proof -
  have d: "df_getitem_list (get_dummies (map snd lpd)) [''Sell'', ''Buy'', ''Hold''] =
      Inr (selected_dummies (map snd lpd))"
    using assms(4-6) by (rule select_dummies_present)
  have nm: "make_label_names (map fst (columns (selected_dummies (map snd lpd)))) =
      Inr [0 \<mapsto> ''Sell'', 1 \<mapsto> ''Buy'', 2 \<mapsto> ''Hold'']"
    unfolding colnames_selected by (rule label_names_fixed)
  show ?thesis
    unfolding prepare_def
    by (simp only: assms(1-3,7-10) d nm simp_thms if_True if_False option.case sum.case
          split_beta)
qed

lemma prepare_Inl_not_Returns:
  "prepare env data column_name L W st kw = Inl out \<Longrightarrow> out \<noteq> Returns t"
  unfolding prepare_def
  by (auto split: if_splits option.splits sum.splits prod.splits)

lemma call_Returns:
  assumes "data_to_labelled_img env data column_name L W st kw = Returns t"
  obtains fr where
    "prepare env data column_name L W st kw = Inr fr"
    "stack_images st (image_vars fr) = Inr (ret_images t)"
    "ret_labelled_pd t = labelled_pd fr"
    "ret_price_at_image t = price_at_image fr"
    "ret_image_labels t = image_labels fr"
    "ret_label_names t = label_names fr"
proof -
  from assms obtain fr where p: "prepare env data column_name L W st kw = Inr fr"
    unfolding data_to_labelled_img_def
    by (cases "prepare env data column_name L W st kw") (auto dest: prepare_Inl_not_Returns)
  from assms p obtain imgs where s: "stack_images st (image_vars fr) = Inr imgs"
    unfolding data_to_labelled_img_def by (simp split: sum.splits)
  from assms p s have "t = \<lparr>ret_labelled_pd = labelled_pd fr,
                        ret_price_at_image = price_at_image fr,
                        ret_images = imgs,
                        ret_image_labels = image_labels fr,
                        ret_label_names = label_names fr\<rparr>"
    unfolding data_to_labelled_img_def by simp
  with p s show thesis by (intro that [of fr]) simp_all
qed

subsection \<open>The call as a whole\<close>


lemma one_element_list_raises:
  assumes "prepare env data column_name L W (Lst [s]) kw = Inr fr"
  shows "data_to_labelled_img env data column_name L W (Lst [s]) kw = Raises TypeError"
  unfolding data_to_labelled_img_def stack_images_def using assms by simp

lemma one_element_list_never_Returns:
  "data_to_labelled_img env data column_name L W (Lst [s]) kw \<noteq> Returns t"
proof
  assume a: "data_to_labelled_img env data column_name L W (Lst [s]) kw = Returns t"
  show False by (rule call_Returns [OF a]) (simp add: stack_images_def)
qed

lemma call_Returns_intro:
  assumes "prepare env data column_name L W st kw = Inr fr"
    and "stack_images st (image_vars fr) = Inr imgs"
  shows "data_to_labelled_img env data column_name L W st kw =
    Returns \<lparr>ret_labelled_pd = labelled_pd fr, ret_price_at_image = price_at_image fr,
             ret_images = imgs, ret_image_labels = image_labels fr,
             ret_label_names = label_names fr\<rparr>"
  unfolding data_to_labelled_img_def using assms by simp

lemma call_Raises_intro:
  assumes "prepare env data column_name L W st kw = Inr fr"
    and "stack_images st (image_vars fr) = Inl e"
  shows "data_to_labelled_img env data column_name L W st kw = Raises e"
  unfolding data_to_labelled_img_def using assms by simp

subsection \<open>The concrete environment\<close>

lemma demo_env_sel:
  "local_min_max (demo_env labels) = demo_labeller labels"
  "GASF (demo_env labels) = (\<lambda>xs w b. demo_transform 1 xs w)"
  "GADF (demo_env labels) = (\<lambda>xs w b. demo_transform 2 xs w)"
  "RP (demo_env labels) = (\<lambda>xs w p b. demo_transform 3 xs w)"
  "MTF (demo_env labels) = (\<lambda>xs w nb. demo_transform 4 xs w)"
  "rel_change (demo_env labels) = (\<lambda>cur prev. cur / prev - 1)"
  by (simp_all add: demo_env_def)

lemma demo_transform_ok:
  "W \<le> int (length xs) + 1 \<Longrightarrow>
     demo_transform tag xs W = Inr (demo_images tag (nat (int (length xs) - W + 1)))"
  by (simp add: demo_transform_def)

lemma demo_run_transforms:
  assumes "W \<le> int (length xs) + 1"
  shows "run_transforms (demo_env labels) kw st xs W =
    Inr (demo_vars st (nat (int (length xs) - W + 1)))"
  unfolding run_transforms_def run_if_def and_then_def demo_env_sel demo_vars_def
  by (simp only: demo_transform_ok [OF assms] sum.case if_distrib [of "\<lambda>m. case_sum _ _ m"] cong: if_cong)
     (simp split: if_splits)

lemma demo_contracts:
  "one_row_per_value (demo_env labels) series L" "labeller_contract (demo_env labels)"
  by (auto simp: one_row_per_value_def labeller_contract_def demo_env_sel demo_labeller_def)


lemma inner_env_sel:
  "local_min_max (inner_env labels) = inner_labeller labels"
  "GASF (inner_env labels) = GASF (demo_env labels)"
  "GADF (inner_env labels) = GADF (demo_env labels)"
  "RP (inner_env labels) = RP (demo_env labels)"
  "MTF (inner_env labels) = MTF (demo_env labels)"
  "rel_change (inner_env labels) = rel_change (demo_env labels)"
  by (simp_all add: inner_env_def)



lemma inner_trimmed_series:
  "trimmed_series (inner_env labels) kw series L = trimmed_series (demo_env labels) kw series L"
  by (simp only: trimmed_series_def image_source_def inner_env_sel)

subsection \<open>Evaluation of names and stacking (lines 154 to 164)\<close>


lemma ident_not_blank: "is_ident_char c \<Longrightarrow> c \<noteq> CHR '' ''"
  by (auto simp: is_ident_char_def)

lemma rstrip_plain:
  assumes "list_all is_ident_char s"
  shows "rstrip_blanks s = s"
proof (cases "rev s")
  case Nil
  then show ?thesis by (simp add: rstrip_blanks_def)
next
  case (Cons c cs)
  then have "c \<in> set s" by (metis list.set_intros(1) set_rev)
  with assms have "c \<noteq> CHR '' ''" by (auto simp: list_all_iff dest: ident_not_blank)
  with Cons have "dropWhile (\<lambda>c. c = CHR '' '') (rev s) = rev s" by simp
  then show ?thesis by (simp add: rstrip_blanks_def)
qed

lemma rstrip_trailing_blank: "rstrip_blanks (s @ '' '') = rstrip_blanks s"
  by (simp add: rstrip_blanks_def)

lemma plain_prefix: "list_all is_ident_char ''images_''"
  by (simp add: is_ident_char_def)

lemma plain_known:
  "plain_name ''GASF''" "plain_name ''GADF''" "plain_name ''RP''" "plain_name ''MTF''"
  by (simp_all add: plain_name_def is_ident_char_def)

lemma lookup_var_images:
  "lookup_var vars (''images_'' @ trf) =
     (if trf = ''GASF'' then images_GASF vars
      else if trf = ''GADF'' then images_GADF vars
      else if trf = ''RP'' then images_RP vars
      else if trf = ''MTF'' then images_MTF vars
      else None)"
  by (simp add: lookup_var_def)

lemma eval_images_plain:
  assumes "plain_name trf"
  shows "eval_images vars trf =
     (case lookup_var vars (''images_'' @ trf) of
        None \<Rightarrow> Inl (NameError (''images_'' @ trf))
      | Some a \<Rightarrow> Inr a)"
proof -
  have p: "list_all is_ident_char (''images_'' @ trf)"
    using assms plain_prefix unfolding plain_name_def by (simp only: list_all_append)
  show ?thesis
    unfolding eval_images_def Let_def rstrip_plain [OF p]
    using p by (simp only: not_True_eq_False if_False)
qed

lemma eval_images_Inr:
  "eval_images vars trf = Inr a \<Longrightarrow>
     Some a \<in> {images_GASF vars, images_GADF vars, images_RP vars, images_MTF vars}"
  unfolding eval_images_def Let_def lookup_var_def
  by (auto split: if_splits option.splits)


lemma collect_images_Inr:
  "collect_images vars names = Inr arrs \<Longrightarrow>
     length arrs = length names \<and>
     (\<forall>a \<in> set arrs.
        Some a \<in> {images_GASF vars, images_GADF vars, images_RP vars, images_MTF vars})"
proof (induction names arbitrary: arrs)
  case Nil
  then show ?case by simp
next
  case (Cons trf rest)
  from Cons.prems obtain a as where
    a: "eval_images vars trf = Inr a" and as: "collect_images vars rest = Inr as"
    and arrs: "arrs = a # as"
    by (auto simp: and_then_def split: sum.splits)
  from Cons.IH [OF as] eval_images_Inr [OF a] arrs show ?case by auto
qed

lemma moveaxis_shape:
  assumes "moveaxis_0_last (a # as) = Inr t"
  shows "shape t = shape a @ [Suc (length as)]"
  using assms by (simp add: moveaxis_0_last_def split: if_splits) auto

lemma run_transforms_Inr:
  assumes "run_transforms env kw st xs W = Inr vars"
  shows "images_GASF vars =
           (if py_in ''GASF'' st
            then (case GASF env xs W (standardize_out_GASF kw) of Inr a \<Rightarrow> Some a | Inl e \<Rightarrow> None)
            else None)"
    and "images_GADF vars =
           (if py_in ''GADF'' st
            then (case GADF env xs W (standardize_out_GADF kw) of Inr a \<Rightarrow> Some a | Inl e \<Rightarrow> None)
            else None)"
    and "images_RP vars =
           (if py_in ''RP'' st
            then (case RP env xs W (padding_RP kw) (standardize_out_RP kw) of
                    Inr a \<Rightarrow> Some a | Inl e \<Rightarrow> None)
            else None)"
    and "images_MTF vars =
           (if py_in ''MTF'' st
            then (case MTF env xs W (num_bin kw) of Inr a \<Rightarrow> Some a | Inl e \<Rightarrow> None)
            else None)"
    and "py_in ''GASF'' st \<Longrightarrow> images_GASF vars \<noteq> None"
    and "py_in ''GADF'' st \<Longrightarrow> images_GADF vars \<noteq> None"
    and "py_in ''RP'' st \<Longrightarrow> images_RP vars \<noteq> None"
    and "py_in ''MTF'' st \<Longrightarrow> images_MTF vars \<noteq> None"
  using assms unfolding run_transforms_def run_if_def and_then_def
  by (auto split: if_splits sum.splits)



subsection \<open>Counting images and rows\<close>


lemma length_image_source:
  "length (image_source env ret series) = (if ret then length series - 1 else length series)"
  by (simp add: image_source_def py_slice_def Let_def slice_index_def; arith)

lemma length_py_slice_stop:
  "length (py_slice xs None (Some b)) = slice_index (length xs) b"
  by (simp add: py_slice_def Let_def slice_index_def)



lemma half_facts:
  assumes "0 < L"
  shows "np_int_half L = L div 2" "0 \<le> L div 2" "1 \<le> ceil_half L"
  using assms by (simp_all add: np_int_half_def ceil_half_def)


subsection \<open>What a returned tuple looks like\<close>


lemma align_selected:
  "align r W L (selected_dummies col) lpd =
     (array2 3 (map one_hot
        (py_slice col (Some (fst (slice_bounds r W L))) (Some (snd (slice_bounds r W L))))),
      array2 1 (map (\<lambda>x. [x])
        (py_slice (map fst lpd) (Some (fst (slice_bounds r W L)))
           (Some (snd (slice_bounds r W L))))))"
  unfolding align_def
  by (simp only: split_beta rows_selected ncols_selected py_slice_map)

lemma returned_structure:
  assumes "data_to_labelled_img env data column_name L W st kw = Returns t"
  obtains series vars where
    "\<not> W < ceil_half L"
    "data column_name = Some series"
    "local_min_max env series L = Inr (ret_labelled_pd t)"
    "''Sell'' \<in> set (map snd (ret_labelled_pd t))"
    "''Buy'' \<in> set (map snd (ret_labelled_pd t))"
    "''Hold'' \<in> set (map snd (ret_labelled_pd t))"
    "ret_image_labels t = array2 3 (map one_hot
        (py_slice (map snd (ret_labelled_pd t)) (Some (fst (slice_bounds (use_returns kw) W L)))
           (Some (snd (slice_bounds (use_returns kw) W L)))))"
    "ret_price_at_image t = array2 1 (map (\<lambda>x. [x])
        (py_slice (map fst (ret_labelled_pd t)) (Some (fst (slice_bounds (use_returns kw) W L)))
           (Some (snd (slice_bounds (use_returns kw) W L)))))"
    "ret_label_names t = [0 \<mapsto> ''Sell'', 1 \<mapsto> ''Buy'', 2 \<mapsto> ''Hold'']"
    "run_transforms env kw st
       (py_slice (image_source env (use_returns kw) series) None (Some (- np_int_half L))) W
       = Inr vars"
    "stack_images st vars = Inr (ret_images t)"
    "strat_len st \<noteq> 0"
    "float64_exact L" "float64_exact W"
proof -
  from assms obtain fr where
    p: "prepare env data column_name L W st kw = Inr fr"
    and s: "stack_images st (image_vars fr) = Inr (ret_images t)"
    and f: "ret_labelled_pd t = labelled_pd fr" "ret_price_at_image t = price_at_image fr"
      "ret_image_labels t = image_labels fr" "ret_label_names t = label_names fr"
    by (rule call_Returns)
  from p obtain series where
    q: "\<not> W < ceil_half L" "data column_name = Some series"
      "local_min_max env series L = Inr (labelled_pd fr)"
      "''Sell'' \<in> set (map snd (labelled_pd fr))"
      "''Buy'' \<in> set (map snd (labelled_pd fr))"
      "''Hold'' \<in> set (map snd (labelled_pd fr))"
    and a: "(image_labels fr, price_at_image fr) =
       align (use_returns kw) W L (selected_dummies (map snd (labelled_pd fr))) (labelled_pd fr)"
    and r: "run_transforms env kw st
       (py_slice (image_source env (use_returns kw) series) None (Some (- np_int_half L))) W
       = Inr (image_vars fr)" "strat_len st \<noteq> 0"
      "label_names fr = [0 \<mapsto> ''Sell'', 1 \<mapsto> ''Buy'', 2 \<mapsto> ''Hold'']"
      "float64_exact L" "float64_exact W"
    by (rule prepare_Inr)
  from a have "image_labels fr = array2 3 (map one_hot
        (py_slice (map snd (labelled_pd fr)) (Some (fst (slice_bounds (use_returns kw) W L)))
           (Some (snd (slice_bounds (use_returns kw) W L)))))"
    and "price_at_image fr = array2 1 (map (\<lambda>x. [x])
        (py_slice (map fst (labelled_pd fr)) (Some (fst (slice_bounds (use_returns kw) W L)))
           (Some (snd (slice_bounds (use_returns kw) W L)))))"
    unfolding align_selected by simp_all
  with q r s f show thesis by (intro that [of series "image_vars fr"]) simp_all
qed

lemma call_Returns_structure_intro:
  assumes "\<not> W < ceil_half L"
    "data column_name = Some series"
    "local_min_max env series L = Inr lpd"
    "''Sell'' \<in> set (map snd lpd)" "''Buy'' \<in> set (map snd lpd)" "''Hold'' \<in> set (map snd lpd)"
    "run_transforms env kw st
       (py_slice (image_source env (use_returns kw) series) None (Some (- np_int_half L))) W
       = Inr vars"
    "strat_len st \<noteq> 0"
    "stack_images st vars = Inr imgs"
    "float64_exact L" "float64_exact W"
  shows "data_to_labelled_img env data column_name L W st kw =
    Returns \<lparr>ret_labelled_pd = lpd,
      ret_price_at_image = array2 1 (map (\<lambda>x. [x])
        (py_slice (map fst lpd) (Some (fst (slice_bounds (use_returns kw) W L)))
           (Some (snd (slice_bounds (use_returns kw) W L))))),
      ret_images = imgs,
      ret_image_labels = array2 3 (map one_hot
        (py_slice (map snd lpd) (Some (fst (slice_bounds (use_returns kw) W L)))
           (Some (snd (slice_bounds (use_returns kw) W L))))),
      ret_label_names = [0 \<mapsto> ''Sell'', 1 \<mapsto> ''Buy'', 2 \<mapsto> ''Hold'']\<rparr>"
proof -
  note p = prepare_Inr_intro
    [where data = data and column_name = column_name, OF assms(1-8) assms(10,11)]
  have "stack_images st (image_vars \<lparr>labelled_pd = lpd,
         price_at_image = snd (align (use_returns kw) W L (selected_dummies (map snd lpd)) lpd),
         image_labels = fst (align (use_returns kw) W L (selected_dummies (map snd lpd)) lpd),
         label_names = [0 \<mapsto> ''Sell'', 1 \<mapsto> ''Buy'', 2 \<mapsto> ''Hold''],
         image_vars = vars\<rparr>) = Inr imgs"
    using assms(9) by simp
  from call_Returns_intro [OF p this] show ?thesis
    by (simp add: align_selected)
qed

lemma call_Raises_structure_intro:
  assumes "\<not> W < ceil_half L"
    "data column_name = Some series"
    "local_min_max env series L = Inr lpd"
    "''Sell'' \<in> set (map snd lpd)" "''Buy'' \<in> set (map snd lpd)" "''Hold'' \<in> set (map snd lpd)"
    "run_transforms env kw st
       (py_slice (image_source env (use_returns kw) series) None (Some (- np_int_half L))) W
       = Inr vars"
    "strat_len st \<noteq> 0"
    "stack_images st vars = Inl e"
    "float64_exact L" "float64_exact W"
  shows "data_to_labelled_img env data column_name L W st kw = Raises e"
proof -
  note p = prepare_Inr_intro
    [where data = data and column_name = column_name, OF assms(1-8) assms(10,11)]
  show ?thesis by (rule call_Raises_intro [OF p]) (simp add: assms(9))
qed

subsection \<open>Calls in the concrete environment\<close>


lemma demo_call:
  assumes "\<not> W < ceil_half L"
    and "lbls = take (length series) (labels @ replicate (length series) ''Hold'')"
    and "''Sell'' \<in> set lbls" "''Buy'' \<in> set lbls" "''Hold'' \<in> set lbls"
    and "n = slice_index (if use_returns kw then length series - 1 else length series)
               (- np_int_half L)"
    and "W \<le> int n + 1"
    and "strat_len st \<noteq> 0"
    and "sb = slice_bounds (use_returns kw) W L"
    and "float64_exact L" "float64_exact W"
  shows "data_to_labelled_img (demo_env labels) [col \<mapsto> series] col L W st kw =
    (case stack_images st (demo_vars st (nat (int n - W + 1))) of
       Inl e \<Rightarrow> Raises e
     | Inr imgs \<Rightarrow>
        Returns \<lparr>ret_labelled_pd = zip series lbls,
          ret_price_at_image = array2 1 (map (\<lambda>x. [x])
            (py_slice series (Some (fst sb)) (Some (snd sb)))),
          ret_images = imgs,
          ret_image_labels = array2 3 (map one_hot
            (py_slice lbls (Some (fst sb)) (Some (snd sb)))),
          ret_label_names = [0 \<mapsto> ''Sell'', 1 \<mapsto> ''Buy'', 2 \<mapsto> ''Hold'']\<rparr>)"
proof -
  let ?data = "[col \<mapsto> series]"
  let ?lpd = "zip series lbls"
  let ?trim = "py_slice (image_source (demo_env labels) (use_returns kw) series) None
                 (Some (- np_int_half L))"
  have len: "length lbls = length series" unfolding assms(2) by simp
  have f: "map fst ?lpd = series" and s: "map snd ?lpd = lbls"
    using len by simp_all
  have d: "?data col = Some series" by simp
  have l: "local_min_max (demo_env labels) series L = Inr ?lpd"
    by (simp add: demo_env_sel demo_labeller_def assms(2))
  have nt: "length ?trim = n"
    unfolding assms(6) by (simp only: length_py_slice_stop length_image_source)
  have r: "run_transforms (demo_env labels) kw st ?trim W =
      Inr (demo_vars st (nat (int n - W + 1)))"
    using demo_run_transforms [of W ?trim labels kw st] assms(7) unfolding nt by simp
  have m: "''Sell'' \<in> set (map snd ?lpd)" "''Buy'' \<in> set (map snd ?lpd)"
    "''Hold'' \<in> set (map snd ?lpd)"
    unfolding s using assms(3-5) by simp_all
  show ?thesis
  proof (cases "stack_images st (demo_vars st (nat (int n - W + 1)))")
    case (Inl e)
    from call_Raises_structure_intro
      [where data = ?data and column_name = col, OF assms(1) d l m r assms(8) Inl assms(10,11)]
    show ?thesis by (simp add: Inl)
  next
    case (Inr imgs)
    from call_Returns_structure_intro
      [where data = ?data and column_name = col, OF assms(1) d l m r assms(8) Inr assms(10,11)]
    show ?thesis unfolding f s assms(9) by (simp add: Inr)
  qed
qed



lemma eval_known:
  "eval_images vars ''GASF'' =
     (case images_GASF vars of None \<Rightarrow> Inl (NameError ''images_GASF'') | Some a \<Rightarrow> Inr a)"
  "eval_images vars ''GADF'' =
     (case images_GADF vars of None \<Rightarrow> Inl (NameError ''images_GADF'') | Some a \<Rightarrow> Inr a)"
  "eval_images vars ''RP'' =
     (case images_RP vars of None \<Rightarrow> Inl (NameError ''images_RP'') | Some a \<Rightarrow> Inr a)"
  "eval_images vars ''MTF'' =
     (case images_MTF vars of None \<Rightarrow> Inl (NameError ''images_MTF'') | Some a \<Rightarrow> Inr a)"
  by (simp_all add: eval_images_plain plain_known lookup_var_def split: option.splits)

lemma replicate_numeral: "replicate (numeral k) x = x # replicate (pred_numeral k) x"
  by (simp add: numeral_eq_Suc)

lemmas run_simps = replicate_numeral
  float64_exact_def ceil_half_def np_int_half_def slice_index_def default_kwargs_def slice_bounds_def
  py_slice_def stack_images_def and_then_def eval_known demo_vars_def demo_images_def
  moveaxis_0_last_def array2_def one_hot_def

subsection \<open>Further consequences\<close>


lemma call_missing_category:
  assumes "\<not> W < ceil_half L" "data column_name = Some series"
    "local_min_max env series L = Inr lpd"
    "\<not> (''Sell'' \<in> set (map snd lpd) \<and> ''Buy'' \<in> set (map snd lpd) \<and> ''Hold'' \<in> set (map snd lpd))"
    "float64_exact L" "float64_exact W"
  shows "data_to_labelled_img env data column_name L W st kw =
    Raises (KeyError (filter (\<lambda>n. n \<notin> set (map snd lpd)) [''Sell'', ''Buy'', ''Hold'']))"
  unfolding data_to_labelled_img_def prepare_def
  by (simp only: assms(1-3,5,6) select_dummies_absent [OF assms(4)] simp_thms if_True if_False
        option.case sum.case)

lemma price_basis_slice:
  assumes "data_to_labelled_img env data column_name L W st kw = Returns t"
    and "\<not> use_returns kw" and "2 \<le> L"
  shows "ret_price_at_image t = array2 1 (map (\<lambda>x. [x])
           (spec_slice (map fst (ret_labelled_pd t)) (nat (W - 1))
              (length (ret_labelled_pd t) - nat (L div 2))))"
    and "ret_image_labels t = array2 3 (map one_hot
           (spec_slice (map snd (ret_labelled_pd t)) (nat (W - 1))
              (length (ret_labelled_pd t) - nat (L div 2))))"
proof -
  from assms(1) obtain series vars where
    g: "\<not> W < ceil_half L"
    and lab: "ret_image_labels t = array2 3 (map one_hot
        (py_slice (map snd (ret_labelled_pd t)) (Some (fst (slice_bounds (use_returns kw) W L)))
           (Some (snd (slice_bounds (use_returns kw) W L)))))"
    and pr: "ret_price_at_image t = array2 1 (map (\<lambda>x. [x])
        (py_slice (map fst (ret_labelled_pd t)) (Some (fst (slice_bounds (use_returns kw) W L)))
           (Some (snd (slice_bounds (use_returns kw) W L)))))"
    by (rule returned_structure)
  from assms(3) have L: "0 < L" by simp
  have b: "slice_bounds (use_returns kw) W L = (W - 1, - (L div 2))"
    using assms(2) half_facts(1) [OF L] by (simp add: slice_bounds_def)
  have w: "0 \<le> W - 1" using g half_facts(3) [OF L] by simp
  have k: "0 < L div 2" using assms(3) by simp
  show "ret_price_at_image t = array2 1 (map (\<lambda>x. [x])
           (spec_slice (map fst (ret_labelled_pd t)) (nat (W - 1))
              (length (ret_labelled_pd t) - nat (L div 2))))"
    unfolding pr b fst_conv snd_conv py_slice_spec [OF w k] by simp
  show "ret_image_labels t = array2 3 (map one_hot
           (spec_slice (map snd (ret_labelled_pd t)) (nat (W - 1))
              (length (ret_labelled_pd t) - nat (L div 2))))"
    unfolding lab b fst_conv snd_conv py_slice_spec [OF w k] by simp
qed




lemma one_hot_row:
  "i < length xs \<Longrightarrow> take 3 (drop (3 * i) (concat (map one_hot xs))) = one_hot (xs ! i)"
proof (induction xs arbitrary: i)
  case Nil
  then show ?case by simp
next
  case (Cons x xs)
  show ?case
  proof (cases i)
    case 0
    then show ?thesis by (simp add: one_hot_def)
  next
    case (Suc j)
    with Cons.prems have j: "j < length xs" by simp
    have "3 * i = Suc (Suc (Suc (3 * j)))" using Suc by simp
    then have "drop (3 * i) (concat (map one_hot (x # xs))) =
        drop (3 * j) (concat (map one_hot xs))"
      by (simp add: one_hot_def)
    with Cons.IH [OF j] Suc show ?thesis by simp
  qed
qed

lemma demo_label_outside_set:
  "data_to_labelled_img (demo_env [''Hold'', ''Buy'', ''Wait'', ''Sell'', ''Buy'', ''Hold''])
     [''Series'' \<mapsto> [10, 12, 11, 9, 13, 14]] ''Series'' 3 2 (Str ''GASF'') default_kwargs =
   Returns \<lparr>ret_labelled_pd = [(10, ''Hold''), (12, ''Buy''), (11, ''Wait''), (9, ''Sell''),
                                (13, ''Buy''), (14, ''Hold'')],
     ret_price_at_image = \<lparr>shape = [4, 1], flat = [12, 11, 9, 13]\<rparr>,
     ret_images = \<lparr>shape = [4, 1, 1], flat = [1, 1, 1, 1]\<rparr>,
     ret_image_labels = \<lparr>shape = [4, 3],
        flat = [False, True, False, False, False, False, True, False, False, False, True, False]\<rparr>,
     ret_label_names = [0 \<mapsto> ''Sell'', 1 \<mapsto> ''Buy'', 2 \<mapsto> ''Hold'']\<rparr>"
  by (subst demo_call [OF _ refl _ _ _ refl _ _ refl]) (simp_all add: run_simps)

lemma demo_price_basis:
  "data_to_labelled_img (demo_env [''Hold'', ''Buy'', ''Sell'', ''Hold'', ''Buy'', ''Hold''])
     [''Series'' \<mapsto> [10, 12, 11, 9, 13, 14]] ''Series'' 3 2 (Str ''MTF'')
     (default_kwargs\<lparr>use_returns := False\<rparr>) =
   Returns \<lparr>ret_labelled_pd = [(10, ''Hold''), (12, ''Buy''), (11, ''Sell''), (9, ''Hold''),
                                (13, ''Buy''), (14, ''Hold'')],
     ret_price_at_image = \<lparr>shape = [4, 1], flat = [12, 11, 9, 13]\<rparr>,
     ret_images = \<lparr>shape = [4, 1, 1], flat = [4, 4, 4, 4]\<rparr>,
     ret_image_labels = \<lparr>shape = [4, 3],
        flat = [False, True, False, True, False, False, False, False, True, False, True, False]\<rparr>,
     ret_label_names = [0 \<mapsto> ''Sell'', 1 \<mapsto> ''Buy'', 2 \<mapsto> ''Hold'']\<rparr>"
  by (subst demo_call [OF _ refl _ _ _ refl _ _ refl]) (simp_all add: run_simps)

lemma demo_returns_basis:
  "data_to_labelled_img (demo_env [''Hold'', ''Buy'', ''Sell'', ''Hold'', ''Buy'', ''Hold''])
     [''Series'' \<mapsto> [10, 12, 11, 9, 13, 14]] ''Series'' 3 2 (Str ''MTF'')
     (default_kwargs\<lparr>use_returns := True\<rparr>) =
   Returns \<lparr>ret_labelled_pd = [(10, ''Hold''), (12, ''Buy''), (11, ''Sell''), (9, ''Hold''),
                                (13, ''Buy''), (14, ''Hold'')],
     ret_price_at_image = \<lparr>shape = [3, 1], flat = [11, 9, 13]\<rparr>,
     ret_images = \<lparr>shape = [3, 1, 1], flat = [4, 4, 4]\<rparr>,
     ret_image_labels = \<lparr>shape = [3, 3],
        flat = [True, False, False, False, False, True, False, True, False]\<rparr>,
     ret_label_names = [0 \<mapsto> ''Sell'', 1 \<mapsto> ''Buy'', 2 \<mapsto> ''Hold'']\<rparr>"
  by (subst demo_call [OF _ refl _ _ _ refl _ _ refl]) (simp_all add: run_simps)

lemma demo_prepare_one_element:
  "prepare (demo_env [''Hold'', ''Buy'', ''Sell'', ''Hold'', ''Buy'', ''Hold''])
     [''Series'' \<mapsto> [10, 12, 11, 9, 13, 14]] ''Series'' 3 2 (Lst [''RP'']) default_kwargs =
   Inr \<lparr>labelled_pd = [(10, ''Hold''), (12, ''Buy''), (11, ''Sell''), (9, ''Hold''),
                         (13, ''Buy''), (14, ''Hold'')],
        price_at_image = \<lparr>shape = [4, 1], flat = [12, 11, 9, 13]\<rparr>,
        image_labels = \<lparr>shape = [4, 3],
          flat = [False, True, False, True, False, False, False, False, True, False, True,
                  False]\<rparr>,
        label_names = [0 \<mapsto> ''Sell'', 1 \<mapsto> ''Buy'', 2 \<mapsto> ''Hold''],
        image_vars = \<lparr>images_GASF = None, images_GADF = None,
          images_RP = Some \<lparr>shape = [4, 1, 1], flat = [3, 3, 3, 3]\<rparr>, images_MTF = None\<rparr>\<rparr>"
proof -
  let ?series = "[10, 12, 11, 9, 13, 14] :: real list"
  let ?env = "demo_env [''Hold'', ''Buy'', ''Sell'', ''Hold'', ''Buy'', ''Hold'']"
  let ?lpd = "[(10, ''Hold''), (12, ''Buy''), (11, ''Sell''), (9, ''Hold''),
               (13, ''Buy''), (14, ''Hold'')] :: (real \<times> string) list"
  have r: "run_transforms ?env default_kwargs (Lst [''RP''])
      (py_slice (image_source ?env (use_returns default_kwargs) ?series) None
         (Some (- np_int_half 3))) 2 = Inr (demo_vars (Lst [''RP'']) 4)"
    by (subst demo_run_transforms)
       (simp_all add: length_py_slice_stop length_image_source run_simps)
  have "prepare ?env [''Series'' \<mapsto> ?series] ''Series'' 3 2 (Lst [''RP'']) default_kwargs =
    Inr \<lparr>labelled_pd = ?lpd,
         price_at_image = snd (align (use_returns default_kwargs) 2 3
            (selected_dummies (map snd ?lpd)) ?lpd),
         image_labels = fst (align (use_returns default_kwargs) 2 3
            (selected_dummies (map snd ?lpd)) ?lpd),
         label_names = [0 \<mapsto> ''Sell'', 1 \<mapsto> ''Buy'', 2 \<mapsto> ''Hold''],
         image_vars = demo_vars (Lst [''RP'']) 4\<rparr>"
    by (rule prepare_Inr_intro [where series = ?series, OF _ _ _ _ _ _ r])
       (simp_all add: float64_exact_def ceil_half_def demo_env_sel demo_labeller_def)
  then show ?thesis
    by (simp add: align_selected run_simps)
qed

subsection \<open>Names outside the four strategies\<close>

lemma eval_unknown_plain:
  assumes "plain_name n" "n \<notin> set known_strategies"
  shows "eval_images vars n = Inl (NameError (''images_'' @ n))"
  using assms(2) unfolding eval_images_plain [OF assms(1)] lookup_var_images known_strategies_def
  by simp

lemma eval_trailing_blank:
  assumes "plain_name trf"
  shows "eval_images vars (trf @ '' '') = eval_images vars trf"
proof -
  have p: "list_all is_ident_char (''images_'' @ trf)"
    using assms plain_prefix unfolding plain_name_def by (simp only: list_all_append)
  have r: "rstrip_blanks (''images_'' @ trf @ '' '') = ''images_'' @ trf"
    using rstrip_trailing_blank [of "''images_'' @ trf"] rstrip_plain [OF p] by simp
  show ?thesis
    unfolding eval_images_def Let_def r rstrip_plain [OF p]
    by (simp only: p not_True_eq_False if_False)
qed

lemma eval_GASF_blank: "eval_images vars ''GASF '' = eval_images vars ''GASF''"
  using eval_trailing_blank [OF plain_known(1), of vars] by simp

lemma eval_known_bound:
  assumes "run_transforms env kw (Lst names) xs W = Inr vars"
    and "n \<in> set names" "n \<in> set known_strategies"
  shows "\<exists>a. eval_images vars n = Inr a"
proof -
  note b = run_transforms_Inr(5-8) [OF assms(1)]
  from assms(3) consider "n = ''GASF''" | "n = ''GADF''" | "n = ''RP''" | "n = ''MTF''"
    by (auto simp: known_strategies_def)
  then show ?thesis
  proof cases
    case 1 with b(1) assms(2) show ?thesis by (auto simp: eval_known)
  next
    case 2 with b(2) assms(2) show ?thesis by (auto simp: eval_known)
  next
    case 3 with b(3) assms(2) show ?thesis by (auto simp: eval_known)
  next
    case 4 with b(4) assms(2) show ?thesis by (auto simp: eval_known)
  qed
qed

lemma collect_first_unknown:
  assumes "\<forall>n \<in> set ns. n \<in> set known_strategies \<longrightarrow> (\<exists>a. eval_images vars n = Inr a)"
    and "list_all plain_name ns"
    and "filter (\<lambda>n. n \<notin> set known_strategies) ns = u # us"
  shows "collect_images vars ns = Inl (NameError (''images_'' @ u))"
  using assms
proof (induction ns)
  case Nil
  then show ?case by simp
next
  case (Cons n rest)
  show ?case
  proof (cases "n \<in> set known_strategies")
    case True
    with Cons.prems(1) obtain a where a: "eval_images vars n = Inr a" by auto
    from True Cons.prems(3) have "filter (\<lambda>n. n \<notin> set known_strategies) rest = u # us"
      by simp
    with Cons.IH Cons.prems(1,2) have "collect_images vars rest = Inl (NameError (''images_'' @ u))"
      by simp
    with a show ?thesis by (simp add: and_then_def)
  next
    case False
    with Cons.prems(3) have "u = n" by simp
    moreover from Cons.prems(2) have "plain_name n" by simp
    ultimately show ?thesis
      using eval_unknown_plain [OF _ False, of vars] by (simp add: and_then_def)
  qed
qed

lemma demo_prepare_unknown_name:
  "prepare (demo_env [''Hold'', ''Buy'', ''Sell'', ''Hold'', ''Buy'', ''Hold''])
     [''Series'' \<mapsto> [10, 12, 11, 9, 13, 14]] ''Series'' 3 2
     (Lst [''RP'', ''FOO'', ''GASF'']) default_kwargs =
   Inr \<lparr>labelled_pd = [(10, ''Hold''), (12, ''Buy''), (11, ''Sell''), (9, ''Hold''),
                         (13, ''Buy''), (14, ''Hold'')],
        price_at_image = \<lparr>shape = [4, 1], flat = [12, 11, 9, 13]\<rparr>,
        image_labels = \<lparr>shape = [4, 3],
          flat = [False, True, False, True, False, False, False, False, True, False, True,
                  False]\<rparr>,
        label_names = [0 \<mapsto> ''Sell'', 1 \<mapsto> ''Buy'', 2 \<mapsto> ''Hold''],
        image_vars = \<lparr>images_GASF = Some \<lparr>shape = [4, 1, 1], flat = [1, 1, 1, 1]\<rparr>,
          images_GADF = None,
          images_RP = Some \<lparr>shape = [4, 1, 1], flat = [3, 3, 3, 3]\<rparr>, images_MTF = None\<rparr>\<rparr>"
proof -
  let ?series = "[10, 12, 11, 9, 13, 14] :: real list"
  let ?env = "demo_env [''Hold'', ''Buy'', ''Sell'', ''Hold'', ''Buy'', ''Hold'']"
  let ?lpd = "[(10, ''Hold''), (12, ''Buy''), (11, ''Sell''), (9, ''Hold''),
               (13, ''Buy''), (14, ''Hold'')] :: (real \<times> string) list"
  let ?st = "Lst [''RP'', ''FOO'', ''GASF'']"
  have r: "run_transforms ?env default_kwargs ?st
      (py_slice (image_source ?env (use_returns default_kwargs) ?series) None
         (Some (- np_int_half 3))) 2 = Inr (demo_vars ?st 4)"
    by (subst demo_run_transforms)
       (simp_all add: length_py_slice_stop length_image_source run_simps)
  have "prepare ?env [''Series'' \<mapsto> ?series] ''Series'' 3 2 ?st default_kwargs =
    Inr \<lparr>labelled_pd = ?lpd,
         price_at_image = snd (align (use_returns default_kwargs) 2 3
            (selected_dummies (map snd ?lpd)) ?lpd),
         image_labels = fst (align (use_returns default_kwargs) 2 3
            (selected_dummies (map snd ?lpd)) ?lpd),
         label_names = [0 \<mapsto> ''Sell'', 1 \<mapsto> ''Buy'', 2 \<mapsto> ''Hold''],
         image_vars = demo_vars ?st 4\<rparr>"
    by (rule prepare_Inr_intro [where series = ?series, OF _ _ _ _ _ _ r])
       (simp_all add: float64_exact_def ceil_half_def demo_env_sel demo_labeller_def)
  then show ?thesis
    by (simp add: align_selected run_simps)
qed

lemma demo_forty_samples:
  "is_Returns (data_to_labelled_img (demo_env [''Sell'', ''Buy''])
     [''Series'' \<mapsto> map real [0..<40]] ''Series'' 3 14 (Lst [''RP'', ''GASF'', ''MTF''])
     (default_kwargs\<lparr>num_bin := 4, padding_RP := 1\<rparr>))"
  by (subst demo_call [OF _ refl _ _ _ refl _ _ refl])
     (simp_all add: float64_exact_def ceil_half_def np_int_half_def slice_index_def
        default_kwargs_def stack_images_def and_then_def eval_known demo_vars_def demo_images_def
        moveaxis_0_last_def)

subsection \<open>One strategy as a string, several strategies as channels\<close>

lemma concat_nth_uniform:
  assumes "\<forall>ys \<in> set xss. length ys = k" "j < length xss" "c < k"
  shows "concat xss ! (j * k + c) = xss ! j ! c"
  using assms
proof (induction xss arbitrary: j)
  case Nil
  then show ?case by simp
next
  case (Cons ys yss)
  show ?case
  proof (cases j)
    case 0
    with Cons.prems show ?thesis by (simp add: nth_append)
  next
    case (Suc i)
    with Cons.prems have "concat yss ! (i * k + c) = yss ! i ! c"
      by (intro Cons.IH) simp_all
    with Suc Cons.prems show ?thesis by (simp add: nth_append)
  qed
qed

lemma moveaxis_channel:
  assumes m: "moveaxis_0_last arrs = Inr t"
    and wf: "\<forall>a \<in> set arrs. wf_ndarray a"
    and i: "i < length arrs"
  shows "channel t i = arrs ! i"
proof -
  from i obtain a as where arrs: "arrs = a # as" by (cases arrs) auto
  let ?k = "length arrs"
  let ?m = "prod_list (shape a)"
  from m arrs have sh: "\<forall>b \<in> set arrs. shape b = shape a"
    and t: "t = \<lparr>shape = shape a @ [?k], flat = concat (transpose (map flat arrs))\<rparr>"
    by (auto simp: moveaxis_0_last_def list_all_iff split: if_splits)
  have len: "length (flat (arrs ! c)) = ?m" if "c < ?k" for c
    using wf sh that by (auto simp: wf_ndarray_def)
  have tr: "transpose (map flat arrs) =
      map (\<lambda>j. map (\<lambda>c. map flat arrs ! c ! j) [0..<length (map flat arrs)]) [0..<?m]"
  proof (rule transpose_rectangle)
    show "?m = 0" if "map flat arrs = []" using that arrs by simp
    show "length (map flat arrs ! j) = ?m" if "j < length (map flat arrs)" for j
      using that len [of j] by (simp only: length_map nth_map)
  qed
  have rows: "\<forall>ys \<in> set (transpose (map flat arrs)). length ys = ?k"
    unfolding tr by auto
  have nrows: "length (transpose (map flat arrs)) = ?m" unfolding tr by simp
  have el: "flat t ! (j * ?k + i) = flat (arrs ! i) ! j" if "j < ?m" for j
  proof -
    have "concat (transpose (map flat arrs)) ! (j * ?k + i) = transpose (map flat arrs) ! j ! i"
      by (rule concat_nth_uniform [OF rows]) (use that nrows i in simp_all)
    also have "\<dots> = flat (arrs ! i) ! j"
      unfolding tr using that i by simp
    finally show ?thesis by (simp add: t)
  qed
  have "map (\<lambda>j. flat t ! (j * ?k + i)) [0..<?m] = map (\<lambda>j. flat (arrs ! i) ! j) [0..<?m]"
    using el by simp
  also have "\<dots> = flat (arrs ! i)"
    using len [OF i] by (metis map_nth)
  finally have fl: "map (\<lambda>j. flat t ! (j * ?k + i)) [0..<?m] = flat (arrs ! i)" .
  have "shape (arrs ! i) = shape a" using sh i by simp
  with fl show ?thesis by (simp add: channel_def t)
qed

lemma collect_images_nth:
  "collect_images vars names = Inr arrs \<Longrightarrow> i < length names \<Longrightarrow>
     eval_images vars (names ! i) = Inr (arrs ! i)"
proof (induction names arbitrary: arrs i)
  case Nil
  then show ?case by simp
next
  case (Cons trf rest)
  from Cons.prems(1) obtain a as where
    a: "eval_images vars trf = Inr a" and as: "collect_images vars rest = Inr as"
    and arrs: "arrs = a # as"
    by (auto simp: and_then_def split: sum.splits)
  show ?case
  proof (cases i)
    case 0
    with a arrs show ?thesis by simp
  next
    case (Suc j)
    with Cons.prems(2) have "j < length rest" by simp
    from Cons.IH [OF as this] Suc arrs show ?thesis by simp
  qed
qed

lemma run_transforms_wf:
  assumes "wf_transforms env" "run_transforms env kw st xs W = Inr vars"
    and "Some a \<in> {images_GASF vars, images_GADF vars, images_RP vars, images_MTF vars}"
  shows "wf_ndarray a"
proof -
  from assms(3) run_transforms_Inr(1-4) [OF assms(2)]
  have "(\<exists>b. GASF env xs W b = Inr a) \<or> (\<exists>b. GADF env xs W b = Inr a) \<or>
         (\<exists>p b. RP env xs W p b = Inr a) \<or> (\<exists>nb. MTF env xs W nb = Inr a)"
    by (auto split: if_splits sum.splits)
  with assms(1) show ?thesis unfolding wf_transforms_def by blast
qed

lemma run_transforms_results:
  assumes "run_transforms env kw st xs W = Inr vars"
  shows "images_GASF vars = Some a \<Longrightarrow> GASF env xs W (standardize_out_GASF kw) = Inr a"
    and "images_GADF vars = Some a \<Longrightarrow> GADF env xs W (standardize_out_GADF kw) = Inr a"
    and "images_RP vars = Some a \<Longrightarrow> RP env xs W (padding_RP kw) (standardize_out_RP kw) = Inr a"
    and "images_MTF vars = Some a \<Longrightarrow> MTF env xs W (num_bin kw) = Inr a"
  using run_transforms_Inr(1-4) [OF assms]
  by (auto split: if_splits sum.splits)

lemma eval_known_Inr:
  "eval_images vars ''GASF'' = Inr a \<Longrightarrow> images_GASF vars = Some a"
  "eval_images vars ''GADF'' = Inr a \<Longrightarrow> images_GADF vars = Some a"
  "eval_images vars ''RP'' = Inr a \<Longrightarrow> images_RP vars = Some a"
  "eval_images vars ''MTF'' = Inr a \<Longrightarrow> images_MTF vars = Some a"
  by (auto simp: eval_known split: option.splits)

lemma single_strategy_string:
  assumes "data_to_labelled_img env data column_name L W (Str s) kw = Returns t"
  obtains series where "data column_name = Some series"
    and "s = ''GASF'' \<Longrightarrow>
      GASF env (py_slice (image_source env (use_returns kw) series) None
        (Some (- np_int_half L))) W (standardize_out_GASF kw) = Inr (ret_images t)"
    and "s = ''GADF'' \<Longrightarrow>
      GADF env (py_slice (image_source env (use_returns kw) series) None
        (Some (- np_int_half L))) W (standardize_out_GADF kw) = Inr (ret_images t)"
    and "s = ''RP'' \<Longrightarrow>
      RP env (py_slice (image_source env (use_returns kw) series) None
        (Some (- np_int_half L))) W (padding_RP kw) (standardize_out_RP kw) = Inr (ret_images t)"
    and "s = ''MTF'' \<Longrightarrow>
      MTF env (py_slice (image_source env (use_returns kw) series) None
        (Some (- np_int_half L))) W (num_bin kw) = Inr (ret_images t)"
proof -
  from assms obtain series vars where
    d: "data column_name = Some series"
    and r: "run_transforms env kw (Str s)
       (py_slice (image_source env (use_returns kw) series) None (Some (- np_int_half L))) W
       = Inr vars"
    and st: "stack_images (Str s) vars = Inr (ret_images t)"
    by (rule returned_structure)
  from st have e: "eval_images vars s = Inr (ret_images t)" by (simp add: stack_images_def)
  show thesis
    by (rule that [OF d])
       (use e in \<open>auto dest!: eval_known_Inr intro: run_transforms_results [OF r]\<close>)
qed

lemma stacked_channel_order:
  assumes "data_to_labelled_img env data column_name L W (Lst names) kw = Returns t"
    and "wf_transforms env" and "i < length names"
  obtains series where "data column_name = Some series"
    and "length names > 1"
    and "shape (ret_images t) \<noteq> [] \<and> last (shape (ret_images t)) = length names"
    and "names ! i = ''GASF'' \<Longrightarrow>
      GASF env (py_slice (image_source env (use_returns kw) series) None
        (Some (- np_int_half L))) W (standardize_out_GASF kw) = Inr (channel (ret_images t) i)"
    and "names ! i = ''GADF'' \<Longrightarrow>
      GADF env (py_slice (image_source env (use_returns kw) series) None
        (Some (- np_int_half L))) W (standardize_out_GADF kw) = Inr (channel (ret_images t) i)"
    and "names ! i = ''RP'' \<Longrightarrow>
      RP env (py_slice (image_source env (use_returns kw) series) None
        (Some (- np_int_half L))) W (padding_RP kw) (standardize_out_RP kw)
        = Inr (channel (ret_images t) i)"
    and "names ! i = ''MTF'' \<Longrightarrow>
      MTF env (py_slice (image_source env (use_returns kw) series) None
        (Some (- np_int_half L))) W (num_bin kw) = Inr (channel (ret_images t) i)"
proof -
  from assms(1) obtain series vars where
    d: "data column_name = Some series"
    and r: "run_transforms env kw (Lst names)
       (py_slice (image_source env (use_returns kw) series) None (Some (- np_int_half L))) W
       = Inr vars"
    and st: "stack_images (Lst names) vars = Inr (ret_images t)"
    by (rule returned_structure)
  from st obtain arrs where
    c: "collect_images vars names = Inr arrs" and m: "moveaxis_0_last arrs = Inr (ret_images t)"
    and n: "length names > 1"
    by (auto simp: stack_images_def and_then_def split: if_splits sum.splits)
  note ci = collect_images_Inr [OF c]
  from ci have la: "length arrs = length names" by simp
  from ci have wf: "\<forall>a \<in> set arrs. wf_ndarray a"
    using run_transforms_wf [OF assms(2) r] by blast
  from assms(3) la have ia: "i < length arrs" by simp
  from moveaxis_channel [OF m wf ia] have ch: "channel (ret_images t) i = arrs ! i" .
  from collect_images_nth [OF c assms(3)] ch
  have e: "eval_images vars (names ! i) = Inr (channel (ret_images t) i)" by simp
  from ia obtain a as where "arrs = a # as" by (cases arrs) auto
  with m la have sh: "shape (ret_images t) \<noteq> [] \<and> last (shape (ret_images t)) = length names"
    using moveaxis_shape [of a as "ret_images t"] by simp
  show thesis
    by (rule that [OF d n sh])
       (use e in \<open>auto dest!: eval_known_Inr intro: run_transforms_results [OF r]\<close>)
qed

subsection \<open>The window guard (lines 85 to 87)\<close>

text \<open>
  C3, as the code has it. Let the two window sizes be at most \<open>2 ^ 53\<close> in magnitude, so
  that the float64 arithmetic of line 85 is exact. When \<open>W < ceil(L/2)\<close> the call prints
  the message of line 86 and returns the empty tuple: a normal return, not an exception.
  It does so whatever the data, the collaborators and the other arguments are, so neither
  the labeller nor a transform is called and no labels, prices or images are produced.
\<close>

theorem C3_small_window_prints_and_returns_empty:
  "float64_exact L \<Longrightarrow> float64_exact W \<Longrightarrow> W < ceil_half L \<Longrightarrow>
     data_to_labelled_img env data column_name L W st kw = Prints_and_returns_empty window_message"
  by (simp add: data_to_labelled_img_def prepare_def)

theorem C3_small_window_witness:
  "float64_exact 7 \<and> float64_exact 2 \<and> (2::int) < ceil_half 7 \<and>
   data_to_labelled_img (demo_env []) [''Series'' \<mapsto> [5, 6, 7, 8, 9, 10, 11, 12]] ''Series'' 7 2
     (Str ''MTF'') default_kwargs = Prints_and_returns_empty window_message"
proof -
  have x: "float64_exact 7" "float64_exact 2" by (simp_all add: float64_exact_def)
  have h: "(2::int) < ceil_half 7" by (simp add: ceil_half_def)
  show ?thesis
    using x h C3_small_window_prints_and_returns_empty
      [OF x h, of "demo_env []" "[''Series'' \<mapsto> [5, 6, 7, 8, 9, 10, 11, 12]]" "''Series''"
        "Str ''MTF''" default_kwargs]
    by simp
qed

text \<open>
  The claim asks for an error result that is not a normal return of an empty dataset. At
  \<open>L = 3\<close>, \<open>W = 1\<close> the outcome is the printed message and the empty tuple, not an
  exception.
\<close>

theorem C3_small_window_counterexample:
  "data_to_labelled_img (demo_env [''Sell'', ''Buy'', ''Hold'']) [''Series'' \<mapsto> [1, 2, 3, 4]]
     ''Series'' 3 1 (Lst [''RP'', ''GASF'']) default_kwargs
   = Prints_and_returns_empty
       ''image_window_size must be >= np.ceil(label_window_size/2), please choose a grater image window size.''"
  by (simp add: data_to_labelled_img_def prepare_def float64_exact_def ceil_half_def
        window_message_def)

subsection \<open>Equal lengths of the three outputs\<close>




subsection \<open>The slice on the price basis (lines 106 to 112)\<close>

text \<open>
  C1 at the label window \<open>L = 1\<close>, which is odd and positive. For five samples, \<open>W = 1\<close> and
  the price basis, the claim's slice runs from index \<open>W - 1 = 0\<close> to index
  \<open>N - floor(L/2) = 5\<close> and holds all five prices. The function computes the second bound as
  \<^verbatim>\<open>-np.int(1/2)\<close>, which is \<open>0\<close>, so its slice \<^verbatim>\<open>[0:0]\<close> is empty: it returns no price, no
  label and (the transforms being called on \<^verbatim>\<open>series[:0]\<close>) no image. For \<open>L \<ge> 2\<close> the
  function's slice is the claim's (lemma \<open>price_basis_slice\<close>).
\<close>

theorem C1_label_window_one_gives_empty_slice:
  "data_to_labelled_img (demo_env [''Sell'', ''Buy'', ''Hold'', ''Hold'', ''Hold''])
     [''Series'' \<mapsto> [10, 11, 12, 13, 14]] ''Series'' 1 1 (Str ''GASF'') default_kwargs =
   Returns \<lparr>ret_labelled_pd = [(10, ''Sell''), (11, ''Buy''), (12, ''Hold''), (13, ''Hold''),
                                (14, ''Hold'')],
     ret_price_at_image = \<lparr>shape = [0, 1], flat = []\<rparr>,
     ret_images = \<lparr>shape = [0, 1, 1], flat = []\<rparr>,
     ret_image_labels = \<lparr>shape = [0, 3], flat = []\<rparr>,
     ret_label_names = [0 \<mapsto> ''Sell'', 1 \<mapsto> ''Buy'', 2 \<mapsto> ''Hold'']\<rparr>
   \<and> spec_slice [10, 11, 12, 13, 14 :: real] (nat (1 - 1)) (5 - nat (1 div 2))
       = [10, 11, 12, 13, 14]"
proof
  show "spec_slice [10, 11, 12, 13, 14 :: real] (nat (1 - 1)) (5 - nat (1 div 2))
       = [10, 11, 12, 13, 14]"
    by (simp add: spec_slice_def upt_rec)
  show "data_to_labelled_img (demo_env [''Sell'', ''Buy'', ''Hold'', ''Hold'', ''Hold''])
     [''Series'' \<mapsto> [10, 11, 12, 13, 14]] ''Series'' 1 1 (Str ''GASF'') default_kwargs =
   Returns \<lparr>ret_labelled_pd = [(10, ''Sell''), (11, ''Buy''), (12, ''Hold''), (13, ''Hold''),
                                (14, ''Hold'')],
     ret_price_at_image = \<lparr>shape = [0, 1], flat = []\<rparr>,
     ret_images = \<lparr>shape = [0, 1, 1], flat = []\<rparr>,
     ret_image_labels = \<lparr>shape = [0, 3], flat = []\<rparr>,
     ret_label_names = [0 \<mapsto> ''Sell'', 1 \<mapsto> ''Buy'', 2 \<mapsto> ''Hold'']\<rparr>"
    by (subst demo_call [OF _ refl _ _ _ refl _ _ refl]) (simp_all add: run_simps)
qed

subsection \<open>The one-hot columns and the label names (lines 94 to 97, 149 to 152)\<close>

lemma column_order_when_returned:
  "data_to_labelled_img env data column_name L W st kw = Returns t \<Longrightarrow>
     ret_image_labels t =
       array2 3 (map (\<lambda>s. [s = ''Sell'', s = ''Buy'', s = ''Hold''])
         (py_slice (map snd (ret_labelled_pd t))
            (Some (fst (slice_bounds (use_returns kw) W L)))
            (Some (snd (slice_bounds (use_returns kw) W L))))) \<and>
     ret_label_names t = [0 \<mapsto> ''Sell'', 1 \<mapsto> ''Buy'', 2 \<mapsto> ''Hold'']"
proof -
  assume "data_to_labelled_img env data column_name L W st kw = Returns t"
  then obtain series vars where
    "ret_image_labels t = array2 3 (map one_hot
        (py_slice (map snd (ret_labelled_pd t)) (Some (fst (slice_bounds (use_returns kw) W L)))
           (Some (snd (slice_bounds (use_returns kw) W L)))))"
    "ret_label_names t = [0 \<mapsto> ''Sell'', 1 \<mapsto> ''Buy'', 2 \<mapsto> ''Hold'']"
    by (rule returned_structure)
  moreover have "one_hot = (\<lambda>s. [s = ''Sell'', s = ''Buy'', s = ''Hold''])"
    by (rule ext) (simp add: one_hot_def)
  ultimately show ?thesis by simp
qed

text \<open>
  C4 on a series none of whose timestamps is labelled \<open>Sell\<close>. The claim, like the
  docstring ("one-hot encoding", order Sell, Buy, Hold), promises the three columns
  whatever subset of the categories occurs: for the labels of this input, the one-hot
  array of the slice of lines 108 to 109 has a first column of zeros. The function makes
  the columns with \<^verbatim>\<open>pd.get_dummies\<close>, which makes none for a category that does not
  occur, and line 95 then selects the column \<open>Sell\<close> that is not there: the call raises
  \<open>KeyError\<close> and returns neither the array nor the label names. It does so whenever one
  of the three categories is missing among the labels (lemma \<open>call_missing_category\<close>);
  a call that returns its results, which needs all three to occur, has the columns and
  the names that the claim says (lemma \<open>column_order_when_returned\<close>).
\<close>

theorem C4_missing_category_raises_KeyError:
  "data_to_labelled_img (demo_env [''Hold'', ''Buy'', ''Hold'', ''Hold'', ''Buy'', ''Hold''])
     [''Series'' \<mapsto> [10, 12, 11, 9, 13, 14]] ''Series'' 3 2 (Str ''RP'') default_kwargs
   = Raises (KeyError [''Sell''])
   \<and>
   array2 3 (map one_hot
     (py_slice [''Hold'', ''Buy'', ''Hold'', ''Hold'', ''Buy'', ''Hold''] (Some 1) (Some (- 1))))
   = \<lparr>shape = [4, 3],
      flat = [False, True, False, False, False, True, False, False, True, False, True, False]\<rparr>"
proof
  show "data_to_labelled_img (demo_env [''Hold'', ''Buy'', ''Hold'', ''Hold'', ''Buy'', ''Hold''])
     [''Series'' \<mapsto> [10, 12, 11, 9, 13, 14]] ''Series'' 3 2 (Str ''RP'') default_kwargs
   = Raises (KeyError [''Sell''])"
    by (subst call_missing_category
          [where series = "[10, 12, 11, 9, 13, 14]"
             and lpd = "[(10, ''Hold''), (12, ''Buy''), (11, ''Hold''), (9, ''Hold''),
                         (13, ''Buy''), (14, ''Hold'')]"])
       (simp_all add: float64_exact_def ceil_half_def demo_env_sel demo_labeller_def)
  show "array2 3 (map one_hot
     (py_slice [''Hold'', ''Buy'', ''Hold'', ''Hold'', ''Buy'', ''Hold''] (Some 1) (Some (- 1))))
   = \<lparr>shape = [4, 3],
      flat = [False, True, False, False, False, True, False, False, True, False, True, False]\<rparr>"
    by (simp add: array2_def one_hot_def py_slice_def slice_index_def)
qed

text \<open>
  C7, as the code has it. A label outside \<open>{Sell, Buy, Hold}\<close> is not reported. When
  each of the three categories occurs among the labels, the selection of line 95
  succeeds whatever other values occur; and whenever the call returns its results, the
  one-hot row of a timestamp whose label is outside the set is \<open>(0, 0, 0)\<close>.
\<close>

theorem C7_label_outside_set_gives_zero_row:
  "(''Sell'' \<in> set col \<and> ''Buy'' \<in> set col \<and> ''Hold'' \<in> set col \<longrightarrow>
      (\<exists>dummies. df_getitem_list (get_dummies col) [''Sell'', ''Buy'', ''Hold''] = Inr dummies))
   \<and>
   (data_to_labelled_img env data column_name L W st kw = Returns t \<longrightarrow>
      (\<forall>i < length (py_slice (map snd (ret_labelled_pd t))
                      (Some (fst (slice_bounds (use_returns kw) W L)))
                      (Some (snd (slice_bounds (use_returns kw) W L)))).
         py_slice (map snd (ret_labelled_pd t))
           (Some (fst (slice_bounds (use_returns kw) W L)))
           (Some (snd (slice_bounds (use_returns kw) W L))) ! i \<notin> {''Sell'', ''Buy'', ''Hold''}
         \<longrightarrow> take 3 (drop (3 * i) (flat (ret_image_labels t))) = [False, False, False]))"
proof (intro conjI impI allI)
  assume "''Sell'' \<in> set col \<and> ''Buy'' \<in> set col \<and> ''Hold'' \<in> set col"
  then show "\<exists>dummies. df_getitem_list (get_dummies col) [''Sell'', ''Buy'', ''Hold'']
      = Inr dummies"
    by (simp add: select_dummies_present)
next
  fix i
  let ?sl = "py_slice (map snd (ret_labelled_pd t))
               (Some (fst (slice_bounds (use_returns kw) W L)))
               (Some (snd (slice_bounds (use_returns kw) W L)))"
  assume r: "data_to_labelled_img env data column_name L W st kw = Returns t"
    and i: "i < length ?sl" and o: "?sl ! i \<notin> {''Sell'', ''Buy'', ''Hold''}"
  from r obtain series vars where
    "ret_image_labels t = array2 3 (map one_hot ?sl)"
    by (rule returned_structure)
  then have "take 3 (drop (3 * i) (flat (ret_image_labels t))) = one_hot (?sl ! i)"
    using one_hot_row [OF i] by (simp add: array2_def)
  with o show "take 3 (drop (3 * i) (flat (ret_image_labels t))) = [False, False, False]"
    by (simp add: one_hot_def)
qed

theorem C7_label_outside_set_witness:
  "(\<exists>dummies. df_getitem_list
       (get_dummies [''Hold'', ''Buy'', ''Wait'', ''Sell'', ''Buy'', ''Hold''])
       [''Sell'', ''Buy'', ''Hold''] = Inr dummies) \<and>
   is_Returns (data_to_labelled_img
     (demo_env [''Hold'', ''Buy'', ''Wait'', ''Sell'', ''Buy'', ''Hold''])
     [''Series'' \<mapsto> [10, 12, 11, 9, 13, 14]] ''Series'' 3 2 (Str ''GASF'') default_kwargs) \<and>
   py_slice [''Hold'', ''Buy'', ''Wait'', ''Sell'', ''Buy'', ''Hold''] (Some 1) (Some (- 1)) ! 1
     = ''Wait'' \<and>
   take 3 (drop (3 * 1) (flat (ret_image_labels (results (data_to_labelled_img
     (demo_env [''Hold'', ''Buy'', ''Wait'', ''Sell'', ''Buy'', ''Hold''])
     [''Series'' \<mapsto> [10, 12, 11, 9, 13, 14]] ''Series'' 3 2 (Str ''GASF'') default_kwargs)))))
     = [False, False, False]"
proof -
  note e = demo_label_outside_set
  note th = C7_label_outside_set_gives_zero_row
    [of "[''Hold'', ''Buy'', ''Wait'', ''Sell'', ''Buy'', ''Hold'']"
        "demo_env [''Hold'', ''Buy'', ''Wait'', ''Sell'', ''Buy'', ''Hold'']"
        "[''Series'' \<mapsto> [10, 12, 11, 9, 13, 14]]" "''Series''" 3 2 "Str ''GASF''"
        default_kwargs]
  have s: "py_slice [''Hold'', ''Buy'', ''Wait'', ''Sell'', ''Buy'', ''Hold'']
             (Some 1) (Some (- 1)) = [''Buy'', ''Wait'', ''Sell'', ''Buy'']"
    by (simp add: py_slice_def slice_index_def)
  from th [THEN conjunct1] have a: "\<exists>dummies. df_getitem_list
       (get_dummies [''Hold'', ''Buy'', ''Wait'', ''Sell'', ''Buy'', ''Hold''])
       [''Sell'', ''Buy'', ''Hold''] = Inr dummies" by simp
  from th [THEN conjunct2, rule_format, OF e, of 1]
  have b: "take 3 (drop (3 * 1) (flat \<lparr>shape = [4, 3],
        flat = [False, True, False, False, False, False, True, False, False, False, True,
                False]\<rparr>)) = [False, False, False]"
    by (simp add: run_simps)
  from a b s show ?thesis unfolding e by simp
qed

text \<open>
  The claim asks for a failure when a label outside the set appears. Here the third
  timestamp is labelled \<open>Wait\<close>: the call returns its results, and the row of that
  timestamp (the second of the slice) is all zeros.
\<close>

theorem C7_label_outside_set_counterexample:
  "data_to_labelled_img (demo_env [''Hold'', ''Buy'', ''Wait'', ''Sell'', ''Buy'', ''Hold''])
     [''Series'' \<mapsto> [10, 12, 11, 9, 13, 14]] ''Series'' 3 2 (Str ''GASF'') default_kwargs =
   Returns \<lparr>ret_labelled_pd = [(10, ''Hold''), (12, ''Buy''), (11, ''Wait''), (9, ''Sell''),
                                (13, ''Buy''), (14, ''Hold'')],
     ret_price_at_image = \<lparr>shape = [4, 1], flat = [12, 11, 9, 13]\<rparr>,
     ret_images = \<lparr>shape = [4, 1, 1], flat = [1, 1, 1, 1]\<rparr>,
     ret_image_labels = \<lparr>shape = [4, 3],
        flat = [False, True, False, False, False, False, True, False, False, False, True, False]\<rparr>,
     ret_label_names = [0 \<mapsto> ''Sell'', 1 \<mapsto> ''Buy'', 2 \<mapsto> ''Hold'']\<rparr>"
  by (rule demo_label_outside_set)

subsection \<open>Price basis and returns basis (lines 99 to 112)\<close>

text \<open>
  C5. Fix the series, the collaborators, a positive \<open>L\<close>, \<open>W\<close> and the selection, and
  let the call return its results on both bases. The first bound of the slice on the
  returns basis is the first bound on the price basis plus one, and the second bound is
  the same. The labelled table is the same on both bases; \<^verbatim>\<open>price_at_image\<close> and
  \<^verbatim>\<open>image_labels\<close> are the slices of its columns with these bounds; so the prices on
  the returns basis are the prices on the price basis without the first.
\<close>

theorem C5_returns_basis_starts_one_later:
  assumes "0 < L"
    and "data_to_labelled_img env data column_name L W st (kw\<lparr>use_returns := False\<rparr>) = Returns t0"
    and "data_to_labelled_img env data column_name L W st (kw\<lparr>use_returns := True\<rparr>) = Returns t1"
  shows "slice_bounds True W L = (fst (slice_bounds False W L) + 1, snd (slice_bounds False W L))
    \<and> ret_labelled_pd t1 = ret_labelled_pd t0
    \<and> ret_price_at_image t0 = array2 1 (map (\<lambda>x. [x])
        (py_slice (map fst (ret_labelled_pd t0)) (Some (fst (slice_bounds False W L)))
           (Some (snd (slice_bounds False W L)))))
    \<and> ret_price_at_image t1 = array2 1 (map (\<lambda>x. [x])
        (py_slice (map fst (ret_labelled_pd t0)) (Some (fst (slice_bounds False W L) + 1))
           (Some (snd (slice_bounds False W L)))))
    \<and> ret_image_labels t0 = array2 3 (map one_hot
        (py_slice (map snd (ret_labelled_pd t0)) (Some (fst (slice_bounds False W L)))
           (Some (snd (slice_bounds False W L)))))
    \<and> ret_image_labels t1 = array2 3 (map one_hot
        (py_slice (map snd (ret_labelled_pd t0)) (Some (fst (slice_bounds False W L) + 1))
           (Some (snd (slice_bounds False W L)))))
    \<and> flat (ret_price_at_image t1) = drop 1 (flat (ret_price_at_image t0))"
proof -
  have b: "slice_bounds True W L = (fst (slice_bounds False W L) + 1, snd (slice_bounds False W L))"
    by (simp add: slice_bounds_def)
  from assms(2) obtain series0 vars0 where
    g: "\<not> W < ceil_half L" and d0: "data column_name = Some series0"
    and l0: "local_min_max env series0 L = Inr (ret_labelled_pd t0)"
    and lab0: "ret_image_labels t0 = array2 3 (map one_hot
        (py_slice (map snd (ret_labelled_pd t0)) (Some (fst (slice_bounds False W L)))
           (Some (snd (slice_bounds False W L)))))"
    and pr0: "ret_price_at_image t0 = array2 1 (map (\<lambda>x. [x])
        (py_slice (map fst (ret_labelled_pd t0)) (Some (fst (slice_bounds False W L)))
           (Some (snd (slice_bounds False W L)))))"
    by (rule returned_structure) simp
  from assms(3) obtain series1 vars1 where
    d1: "data column_name = Some series1"
    and l1: "local_min_max env series1 L = Inr (ret_labelled_pd t1)"
    and lab1: "ret_image_labels t1 = array2 3 (map one_hot
        (py_slice (map snd (ret_labelled_pd t1)) (Some (fst (slice_bounds True W L)))
           (Some (snd (slice_bounds True W L)))))"
    and pr1: "ret_price_at_image t1 = array2 1 (map (\<lambda>x. [x])
        (py_slice (map fst (ret_labelled_pd t1)) (Some (fst (slice_bounds True W L)))
           (Some (snd (slice_bounds True W L)))))"
    by (rule returned_structure) simp
  from d0 d1 l0 l1 have same: "ret_labelled_pd t1 = ret_labelled_pd t0" by simp
  have s0: "0 \<le> fst (slice_bounds False W L)"
    using g half_facts(3) [OF assms(1)] by (simp add: slice_bounds_def)
  have "flat (ret_price_at_image t1) = drop 1 (flat (ret_price_at_image t0))"
    unfolding pr0 pr1 same b fst_conv snd_conv py_slice_succ_start [OF s0]
    by (simp add: array2_def drop_map flip: map_concat)
  with b same lab0 pr0 lab1 pr1 show ?thesis by simp
qed

theorem C5_returns_basis_witness:
  "(0::int) < 3 \<and>
   is_Returns (data_to_labelled_img
     (demo_env [''Hold'', ''Buy'', ''Sell'', ''Hold'', ''Buy'', ''Hold''])
     [''Series'' \<mapsto> [10, 12, 11, 9, 13, 14]] ''Series'' 3 2 (Str ''MTF'')
     (default_kwargs\<lparr>use_returns := False\<rparr>)) \<and>
   is_Returns (data_to_labelled_img
     (demo_env [''Hold'', ''Buy'', ''Sell'', ''Hold'', ''Buy'', ''Hold''])
     [''Series'' \<mapsto> [10, 12, 11, 9, 13, 14]] ''Series'' 3 2 (Str ''MTF'')
     (default_kwargs\<lparr>use_returns := True\<rparr>)) \<and>
   slice_bounds True 2 3 = (fst (slice_bounds False 2 3) + 1, snd (slice_bounds False 2 3)) \<and>
   flat (ret_price_at_image (results (data_to_labelled_img
     (demo_env [''Hold'', ''Buy'', ''Sell'', ''Hold'', ''Buy'', ''Hold''])
     [''Series'' \<mapsto> [10, 12, 11, 9, 13, 14]] ''Series'' 3 2 (Str ''MTF'')
     (default_kwargs\<lparr>use_returns := True\<rparr>)))) =
   drop 1 (flat (ret_price_at_image (results (data_to_labelled_img
     (demo_env [''Hold'', ''Buy'', ''Sell'', ''Hold'', ''Buy'', ''Hold''])
     [''Series'' \<mapsto> [10, 12, 11, 9, 13, 14]] ''Series'' 3 2 (Str ''MTF'')
     (default_kwargs\<lparr>use_returns := False\<rparr>)))))"
proof -
  have h: "(0::int) < 3" by simp
  note th = C5_returns_basis_starts_one_later [OF h demo_price_basis demo_returns_basis]
  note a = th [THEN conjunct1]
  note g = th [THEN conjunct2, THEN conjunct2, THEN conjunct2, THEN conjunct2,
    THEN conjunct2, THEN conjunct2]
  show ?thesis
    unfolding demo_price_basis demo_returns_basis using h a g by simp
qed

subsection \<open>The selection as a list of one name (lines 154 to 164)\<close>

text \<open>
  C10. For a selection that is a list of one name, the call never returns its results;
  and whenever it reaches the stacking (the stages of lines 85 to 152 have passed), it
  raises \<open>TypeError\<close>: the test of line 154 fails on the length, and line 164 adds the
  string \<^verbatim>\<open>"images_"\<close> and the list. The name plays no part, so this holds for a name the
  function knows as well.
\<close>

theorem C10_one_element_list_type_error:
  "data_to_labelled_img env data column_name L W (Lst [s]) kw \<noteq> Returns t \<and>
   (prepare env data column_name L W (Lst [s]) kw = Inr fr \<longrightarrow>
      data_to_labelled_img env data column_name L W (Lst [s]) kw = Raises TypeError)"
  using one_element_list_never_Returns one_element_list_raises by blast

theorem C10_one_element_list_witness:
  "data_to_labelled_img (demo_env [''Hold'', ''Buy'', ''Sell'', ''Hold'', ''Buy'', ''Hold''])
     [''Series'' \<mapsto> [10, 12, 11, 9, 13, 14]] ''Series'' 3 2 (Lst [''RP'']) default_kwargs
   = Raises TypeError"
  using C10_one_element_list_type_error [THEN conjunct2, rule_format, OF demo_prepare_one_element]
  by simp

text \<open>
  C6 at a selection of exactly one strategy given as a list, which the docstring allows
  ("string or list of strings"): the call raises \<open>TypeError\<close> and returns no image
  tensor. The same strategy given as a string returns that strategy's array, of shape
  \<open>(num_images, H, W')\<close>. For a string, and for a list of two or more of the four names,
  the function does what the claim says (lemmas \<open>single_strategy_string\<close> and
  \<open>stacked_channel_order\<close>).
\<close>

theorem C6_one_element_list_fails:
  "data_to_labelled_img (demo_env [''Hold'', ''Buy'', ''Sell'', ''Hold'', ''Buy'', ''Hold''])
     [''Series'' \<mapsto> [10, 12, 11, 9, 13, 14]] ''Series'' 3 2 (Lst [''GADF'']) default_kwargs
   = Raises TypeError
   \<and>
   data_to_labelled_img (demo_env [''Hold'', ''Buy'', ''Sell'', ''Hold'', ''Buy'', ''Hold''])
     [''Series'' \<mapsto> [10, 12, 11, 9, 13, 14]] ''Series'' 3 2 (Str ''GADF'') default_kwargs
   = Returns \<lparr>ret_labelled_pd = [(10, ''Hold''), (12, ''Buy''), (11, ''Sell''), (9, ''Hold''),
                                (13, ''Buy''), (14, ''Hold'')],
     ret_price_at_image = \<lparr>shape = [4, 1], flat = [12, 11, 9, 13]\<rparr>,
     ret_images = \<lparr>shape = [4, 1, 1], flat = [2, 2, 2, 2]\<rparr>,
     ret_image_labels = \<lparr>shape = [4, 3],
        flat = [False, True, False, True, False, False, False, False, True, False, True, False]\<rparr>,
     ret_label_names = [0 \<mapsto> ''Sell'', 1 \<mapsto> ''Buy'', 2 \<mapsto> ''Hold'']\<rparr>"
proof
  show "data_to_labelled_img (demo_env [''Hold'', ''Buy'', ''Sell'', ''Hold'', ''Buy'', ''Hold''])
     [''Series'' \<mapsto> [10, 12, 11, 9, 13, 14]] ''Series'' 3 2 (Lst [''GADF'']) default_kwargs
   = Raises TypeError"
    by (subst demo_call [OF _ refl _ _ _ refl _ _ refl]) (simp_all add: run_simps)
  show "data_to_labelled_img (demo_env [''Hold'', ''Buy'', ''Sell'', ''Hold'', ''Buy'', ''Hold''])
     [''Series'' \<mapsto> [10, 12, 11, 9, 13, 14]] ''Series'' 3 2 (Str ''GADF'') default_kwargs
   = Returns \<lparr>ret_labelled_pd = [(10, ''Hold''), (12, ''Buy''), (11, ''Sell''), (9, ''Hold''),
                                (13, ''Buy''), (14, ''Hold'')],
     ret_price_at_image = \<lparr>shape = [4, 1], flat = [12, 11, 9, 13]\<rparr>,
     ret_images = \<lparr>shape = [4, 1, 1], flat = [2, 2, 2, 2]\<rparr>,
     ret_image_labels = \<lparr>shape = [4, 3],
        flat = [False, True, False, True, False, False, False, False, True, False, True, False]\<rparr>,
     ret_label_names = [0 \<mapsto> ''Sell'', 1 \<mapsto> ''Buy'', 2 \<mapsto> ''Hold'']\<rparr>"
    by (subst demo_call [OF _ refl _ _ _ refl _ _ refl]) (simp_all add: run_simps)
qed

subsection \<open>Names outside the four strategies\<close>

text \<open>
  C9, as the code has it. The function does not check the names of the selection; a
  name it has no variable for fails only when line 158 or 164 evaluates
  \<^verbatim>\<open>eval("images_" + name)\<close>. Let the selection be a string or a list of two or more
  names, every name made of identifier characters, and let \<open>u\<close> be the first name that is
  not one of GASF, GADF, RP, MTF. Then the call returns no result tuple, and whenever it
  reaches the stacking it raises \<open>NameError\<close> for the variable \<^verbatim>\<open>images_\<close>\<open>u\<close>.
\<close>

theorem C9_unknown_plain_name_raises_NameError:
  assumes "list_all plain_name (strat_names st)"
    and "\<not> one_element_list st"
    and "filter (\<lambda>n. n \<notin> set known_strategies) (strat_names st) = u # us"
  shows "data_to_labelled_img env data column_name L W st kw \<noteq> Returns t \<and>
    (prepare env data column_name L W st kw = Inr fr \<longrightarrow>
       data_to_labelled_img env data column_name L W st kw =
         Raises (NameError (''images_'' @ u)))"
proof -
  have stack: "stack_images st (image_vars fr') = Inl (NameError (''images_'' @ u))"
    if p: "prepare env data column_name L W st kw = Inr fr'" for fr'
  proof (cases st)
    case (Str s)
    with assms(3) have "u = s" "s \<notin> set known_strategies"
      by (auto split: if_splits)
    moreover from Str assms(1) have "plain_name s" by simp
    ultimately show ?thesis
      using Str by (simp add: stack_images_def eval_unknown_plain)
  next
    case (Lst names)
    from assms(3) Lst have "names \<noteq> []" by auto
    with assms(2) Lst have len: "length names > 1"
      by (cases names; cases "tl names") auto
    from p obtain series where
      r: "run_transforms env kw st
       (py_slice (image_source env (use_returns kw) series) None (Some (- np_int_half L))) W
       = Inr (image_vars fr')"
      by (rule prepare_Inr)
    have "\<forall>n \<in> set names. n \<in> set known_strategies \<longrightarrow>
        (\<exists>a. eval_images (image_vars fr') n = Inr a)"
      using eval_known_bound [OF r [unfolded Lst]] by blast
    from collect_first_unknown [OF this] assms(1,3) Lst
    have "collect_images (image_vars fr') names = Inl (NameError (''images_'' @ u))"
      by simp
    with Lst len show ?thesis by (simp add: stack_images_def and_then_def)
  qed
  have "data_to_labelled_img env data column_name L W st kw \<noteq> Returns t"
  proof
    assume a: "data_to_labelled_img env data column_name L W st kw = Returns t"
    then obtain fr' where "prepare env data column_name L W st kw = Inr fr'"
      "stack_images st (image_vars fr') = Inr (ret_images t)"
      by (rule call_Returns)
    with stack show False by simp
  qed
  moreover have "data_to_labelled_img env data column_name L W st kw =
         Raises (NameError (''images_'' @ u))"
    if "prepare env data column_name L W st kw = Inr fr"
    using call_Raises_intro [OF that stack [OF that]] .
  ultimately show ?thesis by blast
qed

theorem C9_unknown_plain_name_witness:
  "list_all plain_name (strat_names (Lst [''RP'', ''FOO'', ''GASF''])) \<and>
   \<not> one_element_list (Lst [''RP'', ''FOO'', ''GASF'']) \<and>
   filter (\<lambda>n. n \<notin> set known_strategies) (strat_names (Lst [''RP'', ''FOO'', ''GASF'']))
     = [''FOO''] \<and>
   data_to_labelled_img (demo_env [''Hold'', ''Buy'', ''Sell'', ''Hold'', ''Buy'', ''Hold''])
     [''Series'' \<mapsto> [10, 12, 11, 9, 13, 14]] ''Series'' 3 2
     (Lst [''RP'', ''FOO'', ''GASF'']) default_kwargs
   = Raises (NameError ''images_FOO'')"
proof -
  have a: "list_all plain_name (strat_names (Lst [''RP'', ''FOO'', ''GASF'']))"
    by (simp add: plain_name_def is_ident_char_def)
  have b: "\<not> one_element_list (Lst [''RP'', ''FOO'', ''GASF''])" by simp
  have c: "filter (\<lambda>n. n \<notin> set known_strategies) (strat_names (Lst [''RP'', ''FOO'', ''GASF'']))
     = [''FOO'']"
    by (simp add: known_strategies_def)
  from C9_unknown_plain_name_raises_NameError
    [OF a b c, THEN conjunct2, rule_format, OF demo_prepare_unknown_name] a b c
  show ?thesis by simp
qed

text \<open>
  The claim says that a selection with a name outside the fixed set never yields a result
  tuple. The name \<^verbatim>\<open>"GASF "\<close> (with a blank at its end) is outside the set, but
  \<^verbatim>\<open>eval("images_GASF ")\<close> is the variable \<^verbatim>\<open>images_GASF\<close>, which is bound because
  \<^verbatim>\<open>"GASF"\<close> is in the list too: the call returns a tensor with two channels.
\<close>

theorem C9_unknown_name_counterexample:
  "data_to_labelled_img (demo_env [''Hold'', ''Buy'', ''Sell'', ''Hold'', ''Buy'', ''Hold''])
     [''Series'' \<mapsto> [10, 12, 11, 9, 13, 14]] ''Series'' 3 2
     (Lst [''GASF'', ''GASF '']) default_kwargs =
   Returns \<lparr>ret_labelled_pd = [(10, ''Hold''), (12, ''Buy''), (11, ''Sell''), (9, ''Hold''),
                                (13, ''Buy''), (14, ''Hold'')],
     ret_price_at_image = \<lparr>shape = [4, 1], flat = [12, 11, 9, 13]\<rparr>,
     ret_images = \<lparr>shape = [4, 1, 1, 2], flat = [1, 1, 1, 1, 1, 1, 1, 1]\<rparr>,
     ret_image_labels = \<lparr>shape = [4, 3],
        flat = [False, True, False, True, False, False, False, False, True, False, True, False]\<rparr>,
     ret_label_names = [0 \<mapsto> ''Sell'', 1 \<mapsto> ''Buy'', 2 \<mapsto> ''Hold'']\<rparr>
   \<and> ''GASF '' \<notin> set known_strategies"
proof
  show "''GASF '' \<notin> set known_strategies" by (simp add: known_strategies_def)
  show "data_to_labelled_img (demo_env [''Hold'', ''Buy'', ''Sell'', ''Hold'', ''Buy'', ''Hold''])
     [''Series'' \<mapsto> [10, 12, 11, 9, 13, 14]] ''Series'' 3 2
     (Lst [''GASF'', ''GASF '']) default_kwargs =
   Returns \<lparr>ret_labelled_pd = [(10, ''Hold''), (12, ''Buy''), (11, ''Sell''), (9, ''Hold''),
                                (13, ''Buy''), (14, ''Hold'')],
     ret_price_at_image = \<lparr>shape = [4, 1], flat = [12, 11, 9, 13]\<rparr>,
     ret_images = \<lparr>shape = [4, 1, 1, 2], flat = [1, 1, 1, 1, 1, 1, 1, 1]\<rparr>,
     ret_image_labels = \<lparr>shape = [4, 3],
        flat = [False, True, False, True, False, False, False, False, True, False, True, False]\<rparr>,
     ret_label_names = [0 \<mapsto> ''Sell'', 1 \<mapsto> ''Buy'', 2 \<mapsto> ''Hold'']\<rparr>"
    by (subst demo_call [OF _ refl _ _ _ refl _ _ refl])
       (simp_all add: run_simps eval_GASF_blank)
qed

subsection \<open>The example of the module's main part (lines 168 to 172)\<close>

text \<open>
  C8, as the code has it. For a series of 40 samples, \<open>L = 3\<close>, \<open>W = 14\<close>, the strategies
  RP, GASF and MTF, 4 bins, RP padding 1 and the price basis, with a labeller that
  returns one row per sample: whenever the call returns its results,
  \<^verbatim>\<open>price_at_image.shape\<close> is \<open>(26, 1)\<close> (line 112 reshapes to one column) and
  \<^verbatim>\<open>image_labels.shape\<close> is \<open>(26, 3)\<close>, so both have the first dimension 26.
\<close>

theorem C8_example_shapes:
  assumes "data column_name = Some series" "length series = 40" "labeller_contract env"
    and "data_to_labelled_img env data column_name 3 14 (Lst [''RP'', ''GASF'', ''MTF''])
           (default_kwargs\<lparr>num_bin := 4, padding_RP := 1\<rparr>) = Returns t"
  shows "shape (ret_price_at_image t) = [26, 1] \<and> shape (ret_image_labels t) = [26, 3] \<and>
         take 1 (shape (ret_price_at_image t)) = take 1 (shape (ret_image_labels t))"
proof -
  let ?kw = "default_kwargs\<lparr>num_bin := 4, padding_RP := 1\<rparr>"
  from assms(4) obtain series' vars where
    d: "data column_name = Some series'"
    and l: "local_min_max env series' 3 = Inr (ret_labelled_pd t)"
    and lab: "ret_image_labels t = array2 3 (map one_hot
        (py_slice (map snd (ret_labelled_pd t)) (Some (fst (slice_bounds (use_returns ?kw) 14 3)))
           (Some (snd (slice_bounds (use_returns ?kw) 14 3)))))"
    and pr: "ret_price_at_image t = array2 1 (map (\<lambda>x. [x])
        (py_slice (map fst (ret_labelled_pd t)) (Some (fst (slice_bounds (use_returns ?kw) 14 3)))
           (Some (snd (slice_bounds (use_returns ?kw) 14 3)))))"
    by (rule returned_structure)
  from assms(3) l have "length (ret_labelled_pd t) = length series'"
    unfolding labeller_contract_def by blast
  with d assms(1,2) have n: "length (ret_labelled_pd t) = 40" by simp
  have b: "slice_bounds (use_returns ?kw) 14 3 = (13, - 1)"
    by (simp add: slice_bounds_def default_kwargs_def np_int_half_def)
  have c: "slice_index 40 (- 1) - slice_index 40 13 = 26"
    by (simp add: slice_index_def)
  show ?thesis
    unfolding lab pr b fst_conv snd_conv
    by (simp add: array2_def length_py_slice n c)
qed

theorem C8_example_shapes_witness:
  "[''Series'' \<mapsto> map real [0..<40]] ''Series'' = Some (map real [0..<40]) \<and>
   length (map real [0..<40]) = 40 \<and>
   labeller_contract (demo_env [''Sell'', ''Buy'']) \<and>
   is_Returns (data_to_labelled_img (demo_env [''Sell'', ''Buy''])
     [''Series'' \<mapsto> map real [0..<40]] ''Series'' 3 14 (Lst [''RP'', ''GASF'', ''MTF''])
     (default_kwargs\<lparr>num_bin := 4, padding_RP := 1\<rparr>)) \<and>
   shape (ret_price_at_image (results (data_to_labelled_img (demo_env [''Sell'', ''Buy''])
     [''Series'' \<mapsto> map real [0..<40]] ''Series'' 3 14 (Lst [''RP'', ''GASF'', ''MTF''])
     (default_kwargs\<lparr>num_bin := 4, padding_RP := 1\<rparr>)))) = [26, 1] \<and>
   shape (ret_image_labels (results (data_to_labelled_img (demo_env [''Sell'', ''Buy''])
     [''Series'' \<mapsto> map real [0..<40]] ''Series'' 3 14 (Lst [''RP'', ''GASF'', ''MTF''])
     (default_kwargs\<lparr>num_bin := 4, padding_RP := 1\<rparr>)))) = [26, 3]"
proof -
  let ?call = "data_to_labelled_img (demo_env [''Sell'', ''Buy''])
     [''Series'' \<mapsto> map real [0..<40]] ''Series'' 3 14 (Lst [''RP'', ''GASF'', ''MTF''])
     (default_kwargs\<lparr>num_bin := 4, padding_RP := 1\<rparr>)"
  have a: "[''Series'' \<mapsto> map real [0..<40]] ''Series'' = Some (map real [0..<40])" by simp
  have b: "length (map real [0..<40]) = 40" by simp
  have e: "?call = Returns (results ?call)"
    using demo_forty_samples by simp
  from C8_example_shapes [OF a b demo_contracts(2) e] a b demo_contracts(2) demo_forty_samples
  show ?thesis by simp
qed

text \<open>
  The claim says that \<^verbatim>\<open>price_at_image.shape\<close> equals \<^verbatim>\<open>image_labels.shape[:1]\<close>. On 40
  samples \<open>0, 1, \<dots>, 39\<close> the first is \<open>(26, 1)\<close> and the second is \<open>(26,)\<close>.
\<close>

theorem C8_example_shapes_counterexample:
  "is_Returns (data_to_labelled_img (demo_env [''Sell'', ''Buy''])
     [''Series'' \<mapsto> map real [0..<40]] ''Series'' 3 14 (Lst [''RP'', ''GASF'', ''MTF''])
     (default_kwargs\<lparr>num_bin := 4, padding_RP := 1\<rparr>)) \<and>
   shape (ret_price_at_image (results (data_to_labelled_img (demo_env [''Sell'', ''Buy''])
     [''Series'' \<mapsto> map real [0..<40]] ''Series'' 3 14 (Lst [''RP'', ''GASF'', ''MTF''])
     (default_kwargs\<lparr>num_bin := 4, padding_RP := 1\<rparr>)))) = [26, 1] \<and>
   take 1 (shape (ret_image_labels (results (data_to_labelled_img (demo_env [''Sell'', ''Buy''])
     [''Series'' \<mapsto> map real [0..<40]] ''Series'' 3 14 (Lst [''RP'', ''GASF'', ''MTF''])
     (default_kwargs\<lparr>num_bin := 4, padding_RP := 1\<rparr>))))) = [26]"
  by (simp add: demo_call [OF _ refl _ _ _ refl _ _ refl]
        float64_exact_def ceil_half_def np_int_half_def slice_index_def default_kwargs_def slice_bounds_def
        stack_images_def and_then_def eval_known demo_vars_def demo_images_def
        moveaxis_0_last_def array2_def length_py_slice)

end
